theory Spec2Isabelle
  imports Main "HOL-Library.Sublist"
begin

section \<open>Go strings and the library functions the programs call\<close>

text \<open>
  A Go string is a sequence of bytes, so it is a \<open>string\<close> (a list of 8-bit \<open>char\<close>s)
  here; text is UTF-8, and the library functions that work on runes decode it. The
  functions below follow the documented behaviour of the Go packages \<open>strings\<close>,
  \<open>strconv\<close>, \<open>unicode\<close>, \<open>unicode/utf8\<close> and \<open>regexp\<close> for the calls the
  programs make.
\<close>

subsection \<open>White space\<close>

text \<open>
  \<open>unicode.IsSpace\<close> holds of U+0009..U+000D, U+0020, U+0085, U+00A0, U+1680,
  U+2000..U+200A, U+2028, U+2029, U+202F, U+205F and U+3000. These are their UTF-8
  encodings. A decoder that steps over a string rune by rune meets such a rune exactly
  where one of these encodings starts: none of them starts with a continuation byte, and a
  byte that is not part of a valid encoding is a rune of width one that is no space.
\<close>

definition unicode_space_utf8 :: "string list" where
  "unicode_space_utf8 =
     [[CHR 0x09], [CHR 0x0A], [CHR 0x0B], [CHR 0x0C], [CHR 0x0D], [CHR 0x20],
      [CHR 0xC2, CHR 0x85], [CHR 0xC2, CHR 0xA0],
      [CHR 0xE1, CHR 0x9A, CHR 0x80],
      [CHR 0xE2, CHR 0x80, CHR 0x80], [CHR 0xE2, CHR 0x80, CHR 0x81],
      [CHR 0xE2, CHR 0x80, CHR 0x82], [CHR 0xE2, CHR 0x80, CHR 0x83],
      [CHR 0xE2, CHR 0x80, CHR 0x84], [CHR 0xE2, CHR 0x80, CHR 0x85],
      [CHR 0xE2, CHR 0x80, CHR 0x86], [CHR 0xE2, CHR 0x80, CHR 0x87],
      [CHR 0xE2, CHR 0x80, CHR 0x88], [CHR 0xE2, CHR 0x80, CHR 0x89],
      [CHR 0xE2, CHR 0x80, CHR 0x8A],
      [CHR 0xE2, CHR 0x80, CHR 0xA8], [CHR 0xE2, CHR 0x80, CHR 0xA9],
      [CHR 0xE2, CHR 0x80, CHR 0xAF],
      [CHR 0xE2, CHR 0x81, CHR 0x9F],
      [CHR 0xE3, CHR 0x80, CHR 0x80]]"

text \<open>The encoding from \<open>es\<close> that the string starts with, if there is one.\<close>

definition rune_at :: "string list \<Rightarrow> string \<Rightarrow> string option" where
  "rune_at es s = find (\<lambda>e. e \<noteq> [] \<and> prefix e s) es"

text \<open>Dropping the runes of \<open>es\<close> that the string starts with, one after another.\<close>

function drop_runes :: "string list \<Rightarrow> string \<Rightarrow> string" where
  "drop_runes es [] = []"
| "drop_runes es (c # cs) =
     (case rune_at es (c # cs) of
        None \<Rightarrow> c # cs
      | Some e \<Rightarrow> drop_runes es (drop (length e) (c # cs)))"
  by pat_completeness auto
termination
  by (relation "measure (\<lambda>(es, s). length s)") (auto simp: rune_at_def find_Some_iff)

text \<open>\<open>strings.TrimSpace\<close>: leading white space goes first, then trailing white space.\<close>

definition strings_TrimLeftSpace :: "string \<Rightarrow> string" where
  "strings_TrimLeftSpace s = drop_runes unicode_space_utf8 s"

definition strings_TrimRightSpace :: "string \<Rightarrow> string" where
  "strings_TrimRightSpace s = rev (drop_runes (map rev unicode_space_utf8) (rev s))"

definition strings_TrimSpace :: "string \<Rightarrow> string" where
  "strings_TrimSpace s = strings_TrimRightSpace (strings_TrimLeftSpace s)"

text \<open>
  \<open>strings.Fields\<close>: the maximal runs of bytes between white space; \<open>acc\<close> is the
  field being read, reversed.
\<close>

definition flush_field :: "string \<Rightarrow> string list" where
  "flush_field acc = (if acc = [] then [] else [rev acc])"

function fields_from :: "string \<Rightarrow> string \<Rightarrow> string list" where
  "fields_from acc [] = flush_field acc"
| "fields_from acc (c # cs) =
     (case rune_at unicode_space_utf8 (c # cs) of
        None \<Rightarrow> fields_from (c # acc) cs
      | Some e \<Rightarrow> flush_field acc @ fields_from [] (drop (length e) (c # cs)))"
  by pat_completeness auto
termination
  by (relation "measure (\<lambda>(acc, s). length s)") (auto simp: rune_at_def find_Some_iff)

definition strings_Fields :: "string \<Rightarrow> string list" where
  "strings_Fields s = fields_from [] s"

subsection \<open>Searching, splitting and replacing\<close>

definition strings_HasPrefix :: "string \<Rightarrow> string \<Rightarrow> bool" where
  "strings_HasPrefix s p = prefix p s"

definition strings_TrimPrefix :: "string \<Rightarrow> string \<Rightarrow> string" where
  "strings_TrimPrefix s p = (if prefix p s then drop (length p) s else s)"

fun strings_Contains :: "string \<Rightarrow> string \<Rightarrow> bool" where
  "strings_Contains [] sub = (sub = [])"
| "strings_Contains (c # cs) sub = (prefix sub (c # cs) \<or> strings_Contains cs sub)"

text \<open>
  \<open>strings.Split\<close> with a separator that is not empty (the programs split at
  \<open>";"\<close>, \<open>"#"\<close> and \<open>".."\<close>): the string is cut at each occurrence of the
  separator, found from left to right, the search resuming after the occurrence.
  \<open>acc\<close> is the piece being read, reversed.
\<close>

function split_from :: "string \<Rightarrow> string \<Rightarrow> string \<Rightarrow> string list" where
  "split_from sep acc [] = [rev acc]"
| "split_from sep acc (c # cs) =
     (if sep \<noteq> [] \<and> prefix sep (c # cs)
      then rev acc # split_from sep [] (drop (length sep) (c # cs))
      else split_from sep (c # acc) cs)"
  by pat_completeness auto
termination
  by (relation "measure (\<lambda>(sep, acc, s). length s)") auto

definition strings_Split :: "string \<Rightarrow> string \<Rightarrow> string list" where
  "strings_Split s sep = split_from sep [] s"

text \<open>\<open>strings.SplitN(s, sep, 2)\<close>: cut at the first occurrence of the separator only.\<close>

fun splitN2_from :: "string \<Rightarrow> string \<Rightarrow> string \<Rightarrow> string list" where
  "splitN2_from sep acc [] = [rev acc]"
| "splitN2_from sep acc (c # cs) =
     (if sep \<noteq> [] \<and> prefix sep (c # cs)
      then [rev acc, drop (length sep) (c # cs)]
      else splitN2_from sep (c # acc) cs)"

definition strings_SplitN2 :: "string \<Rightarrow> string \<Rightarrow> string list" where
  "strings_SplitN2 s sep = splitN2_from sep [] s"

text \<open>
  \<open>strings.ReplaceAll\<close> with a pattern that is not empty: the occurrences found from
  left to right, the search resuming after each, are replaced.
\<close>

function strings_ReplaceAll :: "string \<Rightarrow> string \<Rightarrow> string \<Rightarrow> string" where
  "strings_ReplaceAll [] old new = []"
| "strings_ReplaceAll (c # cs) old new =
     (if old \<noteq> [] \<and> prefix old (c # cs)
      then new @ strings_ReplaceAll (drop (length old) (c # cs)) old new
      else c # strings_ReplaceAll cs old new)"
  by pat_completeness auto
termination
  by (relation "measure (\<lambda>(s, old, new). length s)") auto

subsection \<open>Numbers and runes\<close>

text \<open>
  \<open>strconv.ParseInt(s, 16, 32)\<close>: an optional sign, then one or more hexadecimal digits
  and nothing else (no \<open>0x\<close>, no underscore, as the base is given), the value within
  the signed 32-bit range. \<open>None\<close> is the call that returns an error.
\<close>

definition hex_digit :: "char \<Rightarrow> int option" where
  "hex_digit c =
     (let n = (of_char c :: int) in
      if 48 \<le> n \<and> n \<le> 57 then Some (n - 48)
      else if 97 \<le> n \<and> n \<le> 102 then Some (n - 87)
      else if 65 \<le> n \<and> n \<le> 70 then Some (n - 55)
      else None)"

fun hex_value :: "int \<Rightarrow> string \<Rightarrow> int option" where
  "hex_value n [] = Some n"
| "hex_value n (c # cs) =
     (case hex_digit c of None \<Rightarrow> None | Some d \<Rightarrow> hex_value (16 * n + d) cs)"

definition ParseUint16 :: "string \<Rightarrow> int option" where
  "ParseUint16 s = (if s = [] then None else hex_value 0 s)"

definition ParseInt_16_32 :: "string \<Rightarrow> int option" where
  "ParseInt_16_32 s =
     (case s of
        [] \<Rightarrow> None
      | c # cs \<Rightarrow>
          (let neg = (c = CHR ''-'');
               digits = (if c = CHR ''+'' \<or> c = CHR ''-'' then cs else s)
           in case ParseUint16 digits of
                None \<Rightarrow> None
              | Some un \<Rightarrow>
                  if \<not> neg \<and> un \<ge> 2 ^ 31 then None
                  else if neg \<and> un > 2 ^ 31 then None
                  else Some (if neg then - un else un)))"

text \<open>
  The conversion \<open>string(rs)\<close> of a rune slice: each rune in UTF-8, a rune that is no
  Unicode scalar value (negative, a surrogate, beyond U+10FFFF) as U+FFFD.
\<close>

definition utf8_EncodeRune :: "int \<Rightarrow> string" where
  "utf8_EncodeRune r =
     (let n = r in
      if n < 0 \<or> n > 0x10FFFF \<or> (0xD800 \<le> n \<and> n \<le> 0xDFFF)
        then [CHR 0xEF, CHR 0xBF, CHR 0xBD]
      else if n \<le> 0x7F then [char_of n]
      else if n \<le> 0x7FF then [char_of (0xC0 + n div 64), char_of (0x80 + n mod 64)]
      else if n \<le> 0xFFFF
        then [char_of (0xE0 + n div 4096), char_of (0x80 + (n div 64) mod 64),
              char_of (0x80 + n mod 64)]
      else [char_of (0xF0 + n div 262144), char_of (0x80 + (n div 4096) mod 64),
            char_of (0x80 + (n div 64) mod 64), char_of (0x80 + n mod 64)])"

definition string_of_runes :: "int list \<Rightarrow> string" where
  "string_of_runes rs = concat (map utf8_EncodeRune rs)"

section \<open>The emoji-sequences programs (format B)\<close>

text \<open>\<open>EmojiData\<close> of \<open>src/main.go\<close>: a code-point field and a description.\<close>

record EmojiData_B =
  CodePoint :: string
  Description_B :: string

text \<open>
  The loop of \<open>parseEmojiLine\<close>: \<open>i\<close> is the index of the code point at the head of
  the list; a record is appended when the descriptions have that index.
\<close>

fun pair_loop :: "nat \<Rightarrow> string list \<Rightarrow> string list \<Rightarrow> EmojiData_B list" where
  "pair_loop i [] ds = []"
| "pair_loop i (codePoint # rest) ds =
     (if i < length ds
      then \<lparr>CodePoint = codePoint, Description_B = ds ! i\<rparr> # pair_loop (Suc i) rest ds
      else pair_loop (Suc i) rest ds)"

definition parseEmojiLine_B :: "string \<Rightarrow> EmojiData_B list" where
  "parseEmojiLine_B line =
     (let parts = strings_Split line '';'' in
      if length parts < 3 then []
      else
        let codePoints = strings_TrimSpace (parts ! 0);
            descriptionPart = hd (strings_Split (parts ! 2) ''#'');
            description = strings_TrimSpace descriptionPart;
            codePointsSplit = strings_Split codePoints ''..'';
            descriptionsSplit = strings_Split description ''..''
        in pair_loop 0 codePointsSplit descriptionsSplit)"

text \<open>
  \<open>convertCodePointToEmoji\<close>: the loop over the fields collects the runes, a field
  that does not parse is passed over.
\<close>

fun collect_runes :: "int list \<Rightarrow> string list \<Rightarrow> int list" where
  "collect_runes emojiRunes [] = emojiRunes"
| "collect_runes emojiRunes (cp # rest) =
     (case ParseInt_16_32 cp of
        None \<Rightarrow> collect_runes emojiRunes rest
      | Some runeValue \<Rightarrow> collect_runes (emojiRunes @ [runeValue]) rest)"

definition emojiRunes_of :: "string \<Rightarrow> int list" where
  "emojiRunes_of codePointStr = collect_runes [] (strings_Fields codePointStr)"

definition convertCodePointToEmoji :: "string \<Rightarrow> string" where
  "convertCodePointToEmoji codePointStr = string_of_runes (emojiRunes_of codePointStr)"

section \<open>The emoji-test program (format A)\<close>

subsection \<open>The pattern of \<open>extractDescriptionAndEmoji\<close>\<close>

text \<open>
  The pattern is \<^verbatim>\<open>^\s+(.+) E\d+\.\d+ (.+)\<close>. Go's \<open>regexp\<close> returns the match a
  backtracking search finds first: each \<open>+\<close> takes as much as it can and gives back one
  rune at a time. \<^verbatim>\<open>\s\<close> is tab, line feed, form feed, carriage return and space;
  \<^verbatim>\<open>\d\<close> is an ASCII digit; \<^verbatim>\<open>.\<close> is any rune but the line feed. The groups
  begin and end next to ASCII bytes, so they are made of whole runes and the search can
  step over bytes.
\<close>

definition re_space :: "char \<Rightarrow> bool" where
  "re_space c =
     (c = CHR 0x09 \<or> c = CHR 0x0A \<or> c = CHR 0x0C \<or> c = CHR 0x0D \<or> c = CHR 0x20)"

definition re_digit :: "char \<Rightarrow> bool" where
  "re_digit c = (let n = (of_char c :: int) in 48 \<le> n \<and> n \<le> 57)"

definition re_dot :: "char \<Rightarrow> bool" where
  "re_dot c = (c \<noteq> CHR 0x0A)"

text \<open>
  \<^verbatim>\<open>\d+\<close> followed by a byte that is no digit: only the whole run of digits can be
  the match. The result is what follows the digits.
\<close>

definition re_digits :: "string \<Rightarrow> string option" where
  "re_digits s = (if takeWhile re_digit s = [] then None else Some (dropWhile re_digit s))"

text \<open>
  The rest of the pattern after the first group, \<^verbatim>\<open> E\d+\.\d+ (.+)\<close>, at the start
  of the string: the second group if it matches. The last \<open>+\<close> has nothing after it and
  keeps all it can take.
\<close>

definition re_version_tail :: "string \<Rightarrow> string option" where
  "re_version_tail s =
     (case s of
        sp # e # r \<Rightarrow>
          if sp = CHR '' '' \<and> e = CHR ''E'' then
            (case re_digits r of
               None \<Rightarrow> None
             | Some r1 \<Rightarrow>
                 (case r1 of
                    dot # r2 \<Rightarrow>
                      if dot = CHR ''.'' then
                        (case re_digits r2 of
                           None \<Rightarrow> None
                         | Some r3 \<Rightarrow>
                             (case r3 of
                                sp2 # r4 \<Rightarrow>
                                  if sp2 = CHR '' '' \<and> takeWhile re_dot r4 \<noteq> []
                                  then Some (takeWhile re_dot r4) else None
                              | [] \<Rightarrow> None))
                      else None
                  | [] \<Rightarrow> None))
          else None
      | _ \<Rightarrow> None)"

text \<open>
  The first group \<^verbatim>\<open>(.+)\<close> at the start of the string, then the rest: the longest
  group after which the rest matches is tried first.
\<close>

fun re_group1 :: "string \<Rightarrow> (string \<times> string) option" where
  "re_group1 [] = None"
| "re_group1 (c # cs) =
     (if re_dot c then
        (case re_group1 cs of
           Some (g1, g2) \<Rightarrow> Some (c # g1, g2)
         | None \<Rightarrow>
             (case re_version_tail cs of
                Some g2 \<Rightarrow> Some ([c], g2)
              | None \<Rightarrow> None))
      else None)"

text \<open>\<^verbatim>\<open>^\s+\<close> and then the groups: the longest run of white space is tried first.\<close>

fun re_spaces :: "string \<Rightarrow> (string \<times> string) option" where
  "re_spaces [] = None"
| "re_spaces (c # cs) =
     (if re_space c then
        (case re_spaces cs of
           Some m \<Rightarrow> Some m
         | None \<Rightarrow> re_group1 cs)
      else None)"

text \<open>
  \<open>re.FindStringSubmatch(input)\<close>: the two groups when the pattern matches (the slice
  then has three elements), \<open>None\<close> when it does not (the slice is nil).
\<close>

definition FindStringSubmatch :: "string \<Rightarrow> (string \<times> string) option" where
  "FindStringSubmatch input = re_spaces input"

subsection \<open>The line parser\<close>

text \<open>
  The four strings that \<open>extractDescriptionAndEmoji\<close> deletes after the comma and the
  colon, byte for byte as the source file has them between the quotation marks of its
  string literals. Each is seven bytes, the UTF-8 text of three characters: U+201A (a low
  single quotation mark), U+00C4 (a capital A with diaeresis) and then U+00F4, U+00F2,
  U+00FA and U+00F9 in turn. None of them is the UTF-8 text of a curly quotation mark.
\<close>

definition junk_first :: string where
  "junk_first = [CHR 0xE2, CHR 0x80, CHR 0x9A, CHR 0xC3, CHR 0x84, CHR 0xC3, CHR 0xB4]"

definition junk_second :: string where
  "junk_second = [CHR 0xE2, CHR 0x80, CHR 0x9A, CHR 0xC3, CHR 0x84, CHR 0xC3, CHR 0xB2]"

definition junk_third :: string where
  "junk_third = [CHR 0xE2, CHR 0x80, CHR 0x9A, CHR 0xC3, CHR 0x84, CHR 0xC3, CHR 0xBA]"

definition junk_fourth :: string where
  "junk_fourth = [CHR 0xE2, CHR 0x80, CHR 0x9A, CHR 0xC3, CHR 0x84, CHR 0xC3, CHR 0xB9]"

definition normalize_description :: "string \<Rightarrow> string" where
  "normalize_description m2 =
     (let description = strings_TrimSpace (strings_ReplaceAll m2 '' '' ''-'');
          description = strings_ReplaceAll description '','' [];
          description = strings_ReplaceAll description '':'' [];
          description = strings_ReplaceAll description junk_first [];
          description = strings_ReplaceAll description junk_second [];
          description = strings_ReplaceAll description junk_third [];
          description = strings_ReplaceAll description junk_fourth []
      in description)"

definition extractDescriptionAndEmoji :: "string \<Rightarrow> string \<times> string" where
  "extractDescriptionAndEmoji input =
     (case FindStringSubmatch input of
        Some (m1, m2) \<Rightarrow> (strings_TrimSpace m1, normalize_description m2)
      | None \<Rightarrow> ([], []))"

text \<open>\<open>EmojiData\<close> of the emoji-test program.\<close>

record EmojiData =
  Emoji :: string
  Description :: string
  Subgroup :: string

text \<open>What stops a run: an index beyond a slice, or the use of a nil pointer.\<close>

datatype panic = IndexOutOfRange | NilDereference

text \<open>
  \<open>parseEmojiLine\<close> takes the line and the pointer to the current subgroup: \<open>None\<close> is
  the nil pointer, \<open>Some sg\<close> a pointer to a string \<open>sg\<close>. It returns the string the
  pointer points to afterwards and the records, or panics.
\<close>

definition skipped_line :: "string \<Rightarrow> bool" where
  "skipped_line line =
     (\<not> strings_Contains line '';'' \<or> \<not> strings_Contains line ''#''
      \<or> strings_HasPrefix line ''#''
      \<or> strings_Contains line ''minimally-qualified''
      \<or> strings_Contains line ''unqualified''
      \<or> strings_Contains line ''component'')"

definition parseEmojiLine ::
  "string \<Rightarrow> string option \<Rightarrow> panic + (string option \<times> EmojiData list)" where
  "parseEmojiLine line currentSubgroup =
     (if strings_HasPrefix line ''# subgroup:'' then
        (case currentSubgroup of
           None \<Rightarrow> Inl NilDereference
         | Some _ \<Rightarrow>
             Inr (Some (strings_TrimSpace (strings_TrimPrefix line ''# subgroup:'')), []))
      else if skipped_line line then Inr (currentSubgroup, [])
      else
        let parts = strings_SplitN2 line '';'' in
        if length parts \<le> 1 then Inl IndexOutOfRange
        else
          let bits = strings_Split (parts ! 1) ''#'' in
          if length bits \<le> 1 then Inl IndexOutOfRange
          else
            let interestingBits = bits ! 1;
                (emoji, description) = extractDescriptionAndEmoji interestingBits
            in case currentSubgroup of
                 None \<Rightarrow> Inl NilDereference
               | Some sg \<Rightarrow>
                   Inr (currentSubgroup,
                        [\<lparr>Emoji = emoji, Description = description, Subgroup = sg\<rparr>]))"

subsection \<open>The scan of the lines\<close>

text \<open>
  The name that \<open>main\<close> gives a subgroup: the text after the marker, trimmed, with
  \<open>&\<close> spelled out and a hyphen for each space.
\<close>

definition clean_subgroup :: "string \<Rightarrow> string" where
  "clean_subgroup line =
     (let subgroup = strings_TrimSpace (strings_TrimPrefix line ''# subgroup:'');
          subgroup = strings_ReplaceAll subgroup ''&'' ''and'';
          subgroup = strings_ReplaceAll subgroup '' '' ''-''
      in subgroup)"

text \<open>
  The loop of \<open>main\<close> over the lines. \<open>cur\<close> is the pointer \<open>currentSubgroup\<close>,
  nil at first; \<open>act\<close> is what the loop does with each record, on a state \<open>s\<close> of
  its own (the files written so far and the outside world, for \<open>main\<close>). A panic of
  the parser ends the run in the state reached.
\<close>

fun scan_lines ::
  "(EmojiData \<Rightarrow> 's \<Rightarrow> 's) \<Rightarrow> string list \<Rightarrow> string option \<Rightarrow> 's
     \<Rightarrow> (panic \<times> 's) + (string option \<times> 's)" where
  "scan_lines act [] cur s = Inr (cur, s)"
| "scan_lines act (line # rest) cur s =
     (if strings_HasPrefix line ''# subgroup:''
      then scan_lines act rest (Some (clean_subgroup line)) s
      else
        (case cur of
           None \<Rightarrow> scan_lines act rest cur s
         | Some _ \<Rightarrow>
             (case parseEmojiLine line cur of
                Inl p \<Rightarrow> Inl (p, s)
              | Inr (cur', emojiData) \<Rightarrow> scan_lines act rest cur' (fold act emojiData s))))"

text \<open>The records of a scan, in the order in which the loop meets them.\<close>

definition collect :: "EmojiData \<Rightarrow> EmojiData list \<Rightarrow> EmojiData list" where
  "collect emoji seen = seen @ [emoji]"

section \<open>The programs and the outside world\<close>

subsection \<open>Paths\<close>

text \<open>
  \<open>filepath.Clean\<close> on a system whose separator is the slash: the elements between
  slashes are read from left to right; an empty element and \<open>.\<close> are dropped, \<open>..\<close>
  takes back the element before it, is dropped at the root and is kept at the start of a
  path that is not rooted. \<open>kept\<close> holds the elements kept so far, the last one first.
\<close>

fun clean_elements :: "bool \<Rightarrow> string list \<Rightarrow> string list \<Rightarrow> string list" where
  "clean_elements rooted kept [] = rev kept"
| "clean_elements rooted kept (e # es) =
     (if e = [] \<or> e = ''.'' then clean_elements rooted kept es
      else if e = ''..'' then
        (case kept of
           [] \<Rightarrow> clean_elements rooted (if rooted then [] else [e]) es
         | k # ks \<Rightarrow>
             if k = ''..'' then clean_elements rooted (e # kept) es
             else clean_elements rooted ks es)
      else clean_elements rooted (e # kept) es)"

fun join_slash :: "string list \<Rightarrow> string" where
  "join_slash [] = []"
| "join_slash [e] = e"
| "join_slash (e # es) = e @ ''/'' @ join_slash es"

definition filepath_Clean :: "string \<Rightarrow> string" where
  "filepath_Clean path =
     (let rooted = strings_HasPrefix path ''/'';
          out = (if rooted then ''/'' else []) @
                join_slash (clean_elements rooted [] (strings_Split path ''/''))
      in if out = [] then ''.'' else out)"

text \<open>
  \<open>filepath.Join\<close> of two elements: the elements that are not empty, with a slash
  between them, cleaned; the empty string when both are empty.
\<close>

definition filepath_Join :: "string \<Rightarrow> string \<Rightarrow> string" where
  "filepath_Join a b =
     (if a = [] \<and> b = [] then []
      else if a = [] then filepath_Clean b
      else if b = [] then filepath_Clean a
      else filepath_Clean (a @ ''/'' @ b))"

text \<open>\<open>filepath.Split\<close>: the path up to its last slash, and what follows that slash.\<close>

definition filepath_Split :: "string \<Rightarrow> string \<times> string" where
  "filepath_Split path =
     (let file = rev (takeWhile (\<lambda>c. c \<noteq> CHR ''/'') (rev path))
      in (take (length path - length file) path, file))"

text \<open>\<open>path.Split\<close>, the same on a path with slashes: it is applied to the URL.\<close>

definition path_Split :: "string \<Rightarrow> string \<times> string" where
  "path_Split path =
     (let file = rev (takeWhile (\<lambda>c. c \<noteq> CHR ''/'') (rev path))
      in (take (length path - length file) path, file))"

subsection \<open>The world\<close>

text \<open>
  What a run can see and change: the files with their bytes, the archives with their
  entries (a name and the bytes), the lines printed, the number of UUIDs drawn, and the
  operations on the file system that the run has attempted, in order. An archive is kept
  apart from the files of bytes: the programs never read one back. Directories are not
  part of the world: \<open>os.Mkdir\<close> is an attempt and no more, and whether a file can be
  written where it is asked for is the operating system's answer.
\<close>

datatype io_op =
  Mkdir string | Stat string
  | WriteFile string | CreateFile string | OpenFile string | AddEntry string
  | RemoveAll string | Remove string

record world =
  files :: "string \<Rightarrow> string option"
  archives :: "string \<Rightarrow> (string \<times> string) list option"
  console :: "string list"
  uuids_drawn :: nat
  io_log :: "io_op list"

text \<open>\<open>AlfredSnippet\<close>: the object under the key \<open>alfredsnippet\<close>.\<close>

record AlfredSnippet =
  Snippet :: string
  UID :: string
  Name :: string
  Keyword :: string

text \<open>
  What a run is given: the two flags, as \<open>flag.Parse\<close> reads them from a command
  line that it accepts; what \<open>http.Get\<close> on the URL of the program and the scanner on
  the body of the answer give (an error, or the lines: in the emoji-test program the
  error is that of \<open>http.Get\<close> alone and the lines are those scanned before the
  scanner stops, in the emoji-sequences programs the error is also that of the scanner);
  the text of the k-th UUID that \<open>uuid.New\<close> draws; the encoding of
  \<open>encoding/json\<close> (which has no error for a struct of four strings); and, for an
  operation on the file system attempted in a world, the error that the operating system
  answers, if it answers one. A source of random numbers that fails, on which
  \<open>uuid.New\<close> would panic, is left out.
\<close>

record env =
  displayEmojis :: bool
  unicodeVersion :: string
  fetched :: "string + string list"
  uuid_text :: "nat \<Rightarrow> string"
  json_Marshal :: "AlfredSnippet \<Rightarrow> string"
  io_error :: "world \<Rightarrow> io_op \<Rightarrow> string option"

definition attempt :: "io_op \<Rightarrow> world \<Rightarrow> world" where
  "attempt op w = w\<lparr>io_log := io_log w @ [op]\<rparr>"

definition Print :: "string \<Rightarrow> world \<Rightarrow> world" where
  "Print text w = w\<lparr>console := console w @ [text]\<rparr>"

definition newline :: string where
  "newline = [CHR 0x0A]"

text \<open>\<open>os.Mkdir\<close>, whose error the programs do not read.\<close>

definition os_Mkdir :: "string \<Rightarrow> world \<Rightarrow> world" where
  "os_Mkdir name w = attempt (Mkdir name) w"

text \<open>
  \<open>os.WriteFile\<close>: the error of the operating system, or the file with its new bytes.
  A write that fails is taken to leave the files as they were.
\<close>

definition os_WriteFile :: "env \<Rightarrow> string \<Rightarrow> string \<Rightarrow> world \<Rightarrow> string option \<times> world" where
  "os_WriteFile env path data w =
     (let w1 = attempt (WriteFile path) w in
      case io_error env w (WriteFile path) of
        Some err \<Rightarrow> (Some err, w1)
      | None \<Rightarrow>
          (None, w1\<lparr>files := (files w1)(path \<mapsto> data),
                     archives := (archives w1)(path := None)\<rparr>))"

text \<open>
  \<open>strings.ToUpper\<close> on ASCII text, which the text of a UUID is: the letters
  \<open>a\<close> to \<open>z\<close> become \<open>A\<close> to \<open>Z\<close>.
\<close>

definition ascii_upper :: "char \<Rightarrow> char" where
  "ascii_upper c =
     (let n = (of_char c :: int) in if 97 \<le> n \<and> n \<le> 122 then char_of (n - 32) else c)"

definition strings_ToUpper :: "string \<Rightarrow> string" where
  "strings_ToUpper s = map ascii_upper s"

definition generateUID :: "env \<Rightarrow> world \<Rightarrow> string \<times> world" where
  "generateUID env w =
     (strings_ToUpper (uuid_text env (uuids_drawn w)), w\<lparr>uuids_drawn := Suc (uuids_drawn w)\<rparr>)"

text \<open>The name of a snippet file: \<open>fmt.Sprintf("%s [%s].json", description, uid)\<close>.\<close>

definition snippet_name :: "string \<Rightarrow> string \<Rightarrow> string" where
  "snippet_name description uid = description @ '' ['' @ uid @ ''].json''"

subsection \<open>The archive\<close>

text \<open>
  \<open>addFileToZip\<close> of the emoji-test program, on the entries that the writer holds: the
  file is opened, an entry is made under the last element of its path, and the bytes are
  copied. \<open>addFileToZip\<close> of \<open>src/main.go\<close> names the entry by the path itself
  (\<open>header.Name = fileName\<close>). The first argument is the name that the entry gets.
\<close>

definition addFileToZip_named ::
  "(string \<Rightarrow> string) \<Rightarrow> env \<Rightarrow> world \<Rightarrow> (string \<times> string) list \<Rightarrow> string
     \<Rightarrow> string + (string \<times> string) list" where
  "addFileToZip_named entry_name env w entries filename =
     (case files w filename of
        None \<Rightarrow> Inl (''open '' @ filename @ '': no such file or directory'')
      | Some data \<Rightarrow>
          (case io_error env w (OpenFile filename) of
             Some err \<Rightarrow> Inl err
           | None \<Rightarrow>
               (case io_error env w (AddEntry (entry_name filename)) of
                  Some err \<Rightarrow> Inl err
                | None \<Rightarrow> Inr (entries @ [(entry_name filename, data)]))))"

definition addFileToZip ::
  "env \<Rightarrow> world \<Rightarrow> (string \<times> string) list \<Rightarrow> string \<Rightarrow> string + (string \<times> string) list" where
  "addFileToZip = addFileToZip_named (\<lambda>filename. snd (filepath_Split filename))"

definition addFileToZip_B ::
  "env \<Rightarrow> world \<Rightarrow> (string \<times> string) list \<Rightarrow> string \<Rightarrow> string + (string \<times> string) list" where
  "addFileToZip_B = addFileToZip_named (\<lambda>fileName. fileName)"

text \<open>
  The loop of \<open>zipFiles\<close>: it returns at the first error, with the entries made so far.
  Each file that it tries to open is an attempt.
\<close>

fun add_files ::
  "(env \<Rightarrow> world \<Rightarrow> (string \<times> string) list \<Rightarrow> string \<Rightarrow> string + (string \<times> string) list)
     \<Rightarrow> env \<Rightarrow> world \<Rightarrow> (string \<times> string) list \<Rightarrow> string list
     \<Rightarrow> string option \<times> (string \<times> string) list \<times> world" where
  "add_files add env w entries [] = (None, entries, w)"
| "add_files add env w entries (file # rest) =
     (case add env w entries file of
        Inl err \<Rightarrow> (Some err, entries, attempt (OpenFile file) w)
      | Inr entries' \<Rightarrow> add_files add env (attempt (OpenFile file) w) entries' rest)"

text \<open>
  \<open>zipFiles\<close>: the archive file is created, the files are added, and the writer is
  closed when the function returns, also when it returns an error: the archive then holds
  the entries made before the error.
\<close>

definition zipFiles_with ::
  "(env \<Rightarrow> world \<Rightarrow> (string \<times> string) list \<Rightarrow> string \<Rightarrow> string + (string \<times> string) list)
     \<Rightarrow> env \<Rightarrow> string \<Rightarrow> string list \<Rightarrow> world \<Rightarrow> string option \<times> world" where
  "zipFiles_with add env zipFileName fileNames w =
     (let w1 = attempt (CreateFile zipFileName) w in
      case io_error env w (CreateFile zipFileName) of
        Some err \<Rightarrow> (Some err, w1)
      | None \<Rightarrow>
          (let w2 = w1\<lparr>files := (files w1)(zipFileName := None),
                       archives := (archives w1)(zipFileName \<mapsto> [])\<rparr>;
               (err, entries, w3) = add_files add env w2 [] fileNames
           in (err, w3\<lparr>archives := (archives w3)(zipFileName \<mapsto> entries)\<rparr>)))"

definition zipFiles :: "env \<Rightarrow> string \<Rightarrow> string list \<Rightarrow> world \<Rightarrow> string option \<times> world" where
  "zipFiles = zipFiles_with addFileToZip"

definition zipFiles_B :: "env \<Rightarrow> string \<Rightarrow> string list \<Rightarrow> world \<Rightarrow> string option \<times> world" where
  "zipFiles_B = zipFiles_with addFileToZip_B"

subsection \<open>The emoji-test program\<close>

definition plistContent :: string where
  "plistContent =
     ''<?xml version=\"1.0\" encoding=\"UTF-8\"?>'' @ newline @
     ''<!DOCTYPE plist PUBLIC \"-//Apple//DTD PLIST 1.0//EN\" \"http://www.apple.com/DTDs/PropertyList-1.0.dtd\">'' @ newline @
     ''<plist version=\"1.0\">'' @ newline @
     ''<dict>'' @ newline @
     ''    <key>snippetkeywordprefix</key>'' @ newline @
     ''    <string>:</string>'' @ newline @
     ''    <key>snippetkeywordsuffix</key>'' @ newline @
     ''    <string>:</string>'' @ newline @
     ''</dict>'' @ newline @
     ''</plist>''"

definition generateInfoPlist :: "env \<Rightarrow> string \<Rightarrow> world \<Rightarrow> string option \<times> world" where
  "generateInfoPlist env filePath w = os_WriteFile env filePath plistContent w"

definition generateAlfredSnippetJSON ::
  "env \<Rightarrow> EmojiData \<Rightarrow> string \<Rightarrow> string \<Rightarrow> string \<Rightarrow> world \<Rightarrow> string option \<times> world" where
  "generateAlfredSnippetJSON env emoji emojiChar uid filePath w =
     (let snippet = \<lparr>Snippet = emojiChar, UID = uid,
                      Name = ''('' @ Subgroup emoji @ '') '' @ Description emoji,
                      Keyword = Description emoji\<rparr>;
          jsonData = json_Marshal env snippet
      in os_WriteFile env filePath jsonData w)"

text \<open>
  What the loop of \<open>main\<close> does with a record, on the list \<open>filesToZip\<close> and the
  world: it writes the snippet file, or prints the emoji when the flag is set.
\<close>

definition emit :: "env \<Rightarrow> EmojiData \<Rightarrow> string list \<times> world \<Rightarrow> string list \<times> world" where
  "emit env emoji st =
     (let (filesToZip, w) = st in
      if \<not> displayEmojis env then
        (let (uid, w1) = generateUID env w;
             fileName = filepath_Join ''build'' (snippet_name (Description emoji) uid);
             (err, w2) = generateAlfredSnippetJSON env emoji (Emoji emoji) uid fileName w1
         in case err of
              Some e \<Rightarrow>
                (filesToZip,
                 Print (''Error generating JSON for '' @ Description emoji @ '': '' @ e @ newline) w2)
            | None \<Rightarrow> (filesToZip @ [fileName], w2))
      else (filesToZip, Print (Emoji emoji @ '': '' @ Description emoji @ newline) w))"

text \<open>The files that go into the archive: the snippets, the manifest if written, the icon.\<close>

definition manifest_and_icon ::
  "(env \<Rightarrow> string \<Rightarrow> world \<Rightarrow> string option \<times> world) \<Rightarrow> string \<Rightarrow> string
     \<Rightarrow> env \<Rightarrow> string list \<times> world \<Rightarrow> string list \<times> world" where
  "manifest_and_icon write_plist plistFileName iconFileName env st =
     (let (filesToZip, w) = st;
          (err, w1) = write_plist env plistFileName w;
          (filesToZip, w2) =
            (case err of
               Some e \<Rightarrow> (filesToZip, Print (''Error generating info.plist: '' @ e @ newline) w1)
             | None \<Rightarrow> (filesToZip @ [plistFileName], w1))
      in (filesToZip @ [iconFileName], w2))"

definition zipFileName :: "env \<Rightarrow> string" where
  "zipFileName env =
     filepath_Join ''dist'' (''alfredmoji-'' @ unicodeVersion env @ ''.alfredsnippets'')"

definition remove_tree :: "string \<Rightarrow> (string \<Rightarrow> 'a option) \<Rightarrow> string \<Rightarrow> 'a option" where
  "remove_tree dir m = (\<lambda>p. if p = dir \<or> prefix (dir @ ''/'') p then None else m p)"

definition os_RemoveAll :: "string \<Rightarrow> world \<Rightarrow> world" where
  "os_RemoveAll dir w =
     (let w1 = attempt (RemoveAll dir) w
      in w1\<lparr>files := remove_tree dir (files w1), archives := remove_tree dir (archives w1)\<rparr>)"

text \<open>The end of \<open>main\<close> when the flag is not set, from the list and the world of the loop.\<close>

definition build_archive :: "env \<Rightarrow> string list \<times> world \<Rightarrow> string option \<times> world" where
  "build_archive env st =
     (let (filesToZip, w) =
            manifest_and_icon generateInfoPlist (filepath_Join ''build'' ''info.plist'')
              ''../icon.png'' env st
      in zipFiles env (zipFileName env) filesToZip w)"

definition package :: "env \<Rightarrow> string list \<times> world \<Rightarrow> world" where
  "package env st =
     (case build_archive env st of
        (Some e, w) \<Rightarrow> Print (''Error creating .alfredsnippets file: '' @ e @ newline) w
      | (None, w) \<Rightarrow>
          os_RemoveAll ''build''
            (Print (''alfredmoji.alfredsnippets file created successfully.'' @ newline) w))"

subsection \<open>The lines of the emoji-test file\<close>

text \<open>
  \<open>bufio.Scanner\<close> with its default, \<open>ScanLines\<close>, on the bytes of a file: a line
  ends at a line feed or at the end of the bytes, a carriage return at its end is dropped,
  and no line is given for an empty rest. A line that does not fit the buffer of 65536
  bytes with its line feed stops the scan; the emoji-test program does not look at the
  error of the scanner and goes on with the lines scanned so far. \<open>acc\<close> holds the
  bytes of the line read so far.
\<close>

definition dropCR :: "string \<Rightarrow> string" where
  "dropCR data = (if data \<noteq> [] \<and> last data = CHR 0x0D then butlast data else data)"

fun scan_from :: "string \<Rightarrow> string \<Rightarrow> string list" where
  "scan_from acc [] =
     (if acc = [] \<or> 65536 \<le> int (length acc) then [] else [dropCR acc])"
| "scan_from acc (c # cs) =
     (if 65536 \<le> int (length acc) then []
      else if c = CHR 0x0A then dropCR acc # scan_from [] cs
      else scan_from (acc @ [c]) cs)"

definition bufio_ScanLines :: "string \<Rightarrow> string list" where
  "bufio_ScanLines data = scan_from [] data"

fun strings_Join :: "string list \<Rightarrow> string \<Rightarrow> string" where
  "strings_Join [] sep = []"
| "strings_Join [e] sep = e"
| "strings_Join (e # es) sep = e @ sep @ strings_Join es sep"

text \<open>\<open>fmt.Sprintf(unicodeEmojiURL, *unicodeVersion)\<close>.\<close>

definition unicodeEmojiURL :: "string \<Rightarrow> string" where
  "unicodeEmojiURL version = ''https://unicode.org/Public/emoji/'' @ version @ ''/emoji-test.txt''"

text \<open>
  \<open>fetchEmojiData\<close> of the emoji-test program. When \<open>os.Stat\<close> finds the file named
  as the URL ends, the file is opened and its lines are read; when it does not, the lines
  are downloaded and written to that file, joined by line feeds, and the error of that
  write is not read. The file is looked for among the files of bytes.
\<close>

definition fetchEmojiData :: "env \<Rightarrow> string \<Rightarrow> world \<Rightarrow> (string + string list) \<times> world" where
  "fetchEmojiData env url w =
     (let filename = snd (path_Split url);
          w1 = attempt (Stat filename) w;
          found = (case io_error env w (Stat filename) of
                     Some err \<Rightarrow> None
                   | None \<Rightarrow> files w filename)
      in case found of
           Some data \<Rightarrow>
             (let w2 = Print (''Using existing file: '' @ filename @ newline) w1;
                  w3 = attempt (OpenFile filename) w2
              in case io_error env w2 (OpenFile filename) of
                   Some err \<Rightarrow> (Inl err, w3)
                 | None \<Rightarrow> (Inr (bufio_ScanLines data), w3))
         | None \<Rightarrow>
             (let w2 = Print (''Downloading file: '' @ url @ newline) w1
              in case fetched env of
                   Inl err \<Rightarrow> (Inl err, w2)
                 | Inr lines \<Rightarrow>
                     (Inr lines,
                      snd (os_WriteFile env filename (strings_Join lines newline) w2))))"

text \<open>
  \<open>main\<close> of the emoji-test program: the two directories are asked for, the flags are
  parsed, the lines are fetched, and the loop and the end follow. A panic of the parser
  ends the run in the world reached.
\<close>

definition main :: "env \<Rightarrow> world \<Rightarrow> (panic \<times> world) + world" where
  "main env w =
     (let w1 = os_Mkdir ''build'' w;
          w2 = os_Mkdir ''dist'' w1;
          url = unicodeEmojiURL (unicodeVersion env);
          (fetch, w3) = fetchEmojiData env url w2
      in case fetch of
           Inl err \<Rightarrow> Inr (Print (''Error fetching emoji data: '' @ err @ newline) w3)
         | Inr lines \<Rightarrow>
             (case scan_lines (emit env) lines None ([], w3) of
                Inl (p, st) \<Rightarrow> Inl (p, snd st)
              | Inr (cur, st) \<Rightarrow>
                  if \<not> displayEmojis env then Inr (package env st) else Inr (snd st)))"

subsection \<open>The emoji-sequences programs\<close>

text \<open>
  \<open>fetchEmojiData\<close> of the two emoji-sequences programs: the lines are downloaded,
  and no file is read or written.
\<close>

definition fetchEmojiData_B :: "env \<Rightarrow> string + string list" where
  "fetchEmojiData_B env = fetched env"

text \<open>\<open>src/main.go\<close>: the manifest has an empty suffix.\<close>

definition plistContent_B :: string where
  "plistContent_B =
     ''<?xml version=\"1.0\" encoding=\"UTF-8\"?>'' @ newline @
     ''<!DOCTYPE plist PUBLIC \"-//Apple//DTD PLIST 1.0//EN\" \"http://www.apple.com/DTDs/PropertyList-1.0.dtd\">'' @ newline @
     ''<plist version=\"1.0\">'' @ newline @
     ''<dict>'' @ newline @
     ''    <key>snippetkeywordprefix</key>'' @ newline @
     ''    <string>:</string>'' @ newline @
     ''    <key>snippetkeywordsuffix</key>'' @ newline @
     ''    <string></string>'' @ newline @
     ''</dict>'' @ newline @
     ''</plist>''"

definition generateInfoPlist_B :: "env \<Rightarrow> string \<Rightarrow> world \<Rightarrow> string option \<times> world" where
  "generateInfoPlist_B env filePath w = os_WriteFile env filePath plistContent_B w"

definition generateAlfredSnippetJSON_B ::
  "env \<Rightarrow> EmojiData_B \<Rightarrow> string \<Rightarrow> string \<Rightarrow> string \<Rightarrow> world \<Rightarrow> string option \<times> world" where
  "generateAlfredSnippetJSON_B env emoji emojiChar uid filePath w =
     (let snippet = \<lparr>Snippet = emojiChar, UID = uid,
                      Name = Description_B emoji,
                      Keyword = strings_ReplaceAll (Description_B emoji) '' '' ''-''\<rparr>;
          jsonData = json_Marshal env snippet
      in os_WriteFile env filePath jsonData w)"

text \<open>
  The body of the inner loop of \<open>src/main.go\<close>: with the flag set it does nothing.
\<close>

definition emit_B :: "env \<Rightarrow> EmojiData_B \<Rightarrow> string list \<times> world \<Rightarrow> string list \<times> world" where
  "emit_B env emoji st =
     (let (filesToZip, w) = st in
      if \<not> displayEmojis env then
        (let emojiChar = convertCodePointToEmoji (CodePoint emoji);
             (uid, w1) = generateUID env w;
             fileName = filepath_Join [] (snippet_name (Description_B emoji) uid);
             (err, w2) = generateAlfredSnippetJSON_B env emoji emojiChar uid fileName w1
         in case err of
              Some e \<Rightarrow>
                (filesToZip,
                 Print (''Error generating JSON for '' @ Description_B emoji @ '': '' @ e @ newline) w2)
            | None \<Rightarrow> (filesToZip @ [fileName], w2))
      else st)"

definition zipFileName_B :: string where
  "zipFileName_B = filepath_Join ''dist'' ''EmojiPack.alfredsnippets''"

definition build_archive_B :: "env \<Rightarrow> string list \<times> world \<Rightarrow> string option \<times> world" where
  "build_archive_B env st =
     (let (filesToZip, w) =
            manifest_and_icon generateInfoPlist_B (filepath_Join [] ''info.plist'')
              ''icon.png'' env st
      in zipFiles_B env zipFileName_B filesToZip w)"

text \<open>
  \<open>os.Remove("*.json")\<close> removes the one file of that name, if there is one; its error
  is not read.
\<close>

definition os_Remove :: "string \<Rightarrow> world \<Rightarrow> world" where
  "os_Remove name w =
     (let w1 = attempt (Remove name) w
      in w1\<lparr>files := (files w1)(name := None), archives := (archives w1)(name := None)\<rparr>)"

definition package_B :: "env \<Rightarrow> string list \<times> world \<Rightarrow> world" where
  "package_B env st =
     (case build_archive_B env st of
        (Some e, w) \<Rightarrow> Print (''Error creating .alfredsnippets file: '' @ e @ newline) w
      | (None, w) \<Rightarrow>
          os_Remove ''*.json''
            (Print (''EmojiPack.alfredsnippets file created successfully.'' @ newline) w))"

text \<open>
  \<open>main\<close> of \<open>src/main.go\<close>: the two directories are asked for, the flag is parsed
  and the lines are fetched before the loops.
\<close>

definition main_B :: "env \<Rightarrow> world \<Rightarrow> world" where
  "main_B env w =
     (let w1 = os_Mkdir ''build'' w;
          w2 = os_Mkdir ''dist'' w1
      in case fetchEmojiData_B env of
           Inl err \<Rightarrow> Print (''Error fetching emoji data: '' @ err @ newline) w2
         | Inr lines \<Rightarrow>
             (let st = fold (\<lambda>line. fold (emit_B env) (parseEmojiLine_B line)) lines ([], w2)
              in if \<not> displayEmojis env then package_B env st else snd st))"



section \<open>Notions used to state the properties\<close>

subsection \<open>The emoji-sequences line parser\<close>

text \<open>
  The endpoints of a line: the pieces between \<open>".."\<close> of its first field, trimmed, and
  of its third field, cut before the first \<open>#\<close> and trimmed.
\<close>

definition codePoint_endpoints :: "string \<Rightarrow> string list" where
  "codePoint_endpoints line =
     strings_Split (strings_TrimSpace (strings_Split line '';'' ! 0)) ''..''"

definition description_endpoints :: "string \<Rightarrow> string list" where
  "description_endpoints line =
     strings_Split
       (strings_TrimSpace (hd (strings_Split (strings_Split line '';'' ! 2) ''#''))) ''..''"

subsection \<open>The emoji-test line parser\<close>

text \<open>
  The pieces between \<open>#\<close> of what follows the first semicolon of a line; the parser
  reads the second of them.
\<close>

definition annotation_of :: "string \<Rightarrow> string list" where
  "annotation_of line = strings_Split (strings_SplitN2 line '';'' ! 1) ''#''"

text \<open>
  The status field of a data line of the emoji-test file. The filter of the parser names
  three of the four states.
\<close>

datatype qualification = Component | FullyQualified | MinimallyQualified | Unqualified

fun qualification_text :: "qualification \<Rightarrow> string" where
  "qualification_text Component = ''component''"
| "qualification_text FullyQualified = ''fully-qualified''"
| "qualification_text MinimallyQualified = ''minimally-qualified''"
| "qualification_text Unqualified = ''unqualified''"

subsection \<open>The normal form of a description\<close>

text \<open>
  The four deletions that end \<open>extractDescriptionAndEmoji\<close>, in the order of the
  source.
\<close>

definition delete_junk :: "string \<Rightarrow> string" where
  "delete_junk s =
     strings_ReplaceAll
       (strings_ReplaceAll
          (strings_ReplaceAll (strings_ReplaceAll s junk_first []) junk_second [])
          junk_third [])
       junk_fourth []"

text \<open>
  What the first three replacements and the trimming make of the matched text: a hyphen
  for each space, no white space at the ends, no comma and no colon.
\<close>

definition hyphenated :: "string \<Rightarrow> string" where
  "hyphenated m2 =
     filter (\<lambda>c. c \<noteq> CHR '','' \<and> c \<noteq> CHR '':'')
       (strings_TrimSpace (map (\<lambda>c. if c = CHR '' '' then CHR ''-'' else c) m2))"

text \<open>The right single curly quotation mark, U+2019, in UTF-8.\<close>

definition curly_right_single :: string where
  "curly_right_single = [CHR 0xE2, CHR 0x80, CHR 0x99]"

subsection \<open>The runs of the programs\<close>

text \<open>
  The start of the emoji-test program, up to the loop: the two directories are asked for
  and the lines are fetched. It gives the error or the lines, and the world in which the
  loop begins. \<open>cache_file\<close> is the file that the fetch looks for and writes.
\<close>

definition startup :: "env \<Rightarrow> world \<Rightarrow> (string + string list) \<times> world" where
  "startup env w =
     fetchEmojiData env (unicodeEmojiURL (unicodeVersion env))
       (os_Mkdir ''dist'' (os_Mkdir ''build'' w))"


text \<open>The start of \<open>src/main.go\<close>: the two directories are asked for.\<close>

definition startup_B :: "world \<Rightarrow> world" where
  "startup_B w = os_Mkdir ''dist'' (os_Mkdir ''build'' w)"


text \<open>
  The loops that write snippet files have one shape in both programs: a UUID is drawn, a
  file is written under a name made of the description and the UUID, and its name joins
  the list when the write succeeds. \<open>pf\<close> gives the path and \<open>jf\<close> the bytes for a
  record and the number of the UUID, \<open>df\<close> the description for the message.
\<close>

definition gen_emit ::
  "env \<Rightarrow> (nat \<Rightarrow> 'r \<Rightarrow> string) \<Rightarrow> (nat \<Rightarrow> 'r \<Rightarrow> string) \<Rightarrow> ('r \<Rightarrow> string)
     \<Rightarrow> 'r \<Rightarrow> string list \<times> world \<Rightarrow> string list \<times> world" where
  "gen_emit env pf jf df r st =
     (let (fz, w) = st;
          k = uuids_drawn w;
          w0 = w\<lparr>uuids_drawn := Suc k\<rparr>;
          w1 = attempt (WriteFile (pf k r)) w0
      in case io_error env w0 (WriteFile (pf k r)) of
           Some e \<Rightarrow>
             (fz, Print (''Error generating JSON for '' @ df r @ '': '' @ e @ newline) w1)
         | None \<Rightarrow>
             (fz @ [pf k r],
              w1\<lparr>files := (files w1)(pf k r \<mapsto> jf k r),
                  archives := (archives w1)(pf k r := None)\<rparr>))"

fun paths_from :: "(nat \<Rightarrow> 'r \<Rightarrow> string) \<Rightarrow> nat \<Rightarrow> 'r list \<Rightarrow> string list" where
  "paths_from pf k [] = []"
| "paths_from pf k (r # rs) = pf k r # paths_from pf (Suc k) rs"

definition snippet_path :: "env \<Rightarrow> nat \<Rightarrow> EmojiData \<Rightarrow> string" where
  "snippet_path env k emoji =
     filepath_Join ''build''
       (snippet_name (Description emoji) (strings_ToUpper (uuid_text env k)))"

definition snippet_json :: "env \<Rightarrow> nat \<Rightarrow> EmojiData \<Rightarrow> string" where
  "snippet_json env k emoji =
     json_Marshal env
       \<lparr>Snippet = Emoji emoji, UID = strings_ToUpper (uuid_text env k),
        Name = ''('' @ Subgroup emoji @ '') '' @ Description emoji,
        Keyword = Description emoji\<rparr>"

definition snippet_path_B :: "env \<Rightarrow> nat \<Rightarrow> EmojiData_B \<Rightarrow> string" where
  "snippet_path_B env k emoji =
     filepath_Join []
       (snippet_name (Description_B emoji) (strings_ToUpper (uuid_text env k)))"

definition snippet_json_B :: "env \<Rightarrow> nat \<Rightarrow> EmojiData_B \<Rightarrow> string" where
  "snippet_json_B env k emoji =
     json_Marshal env
       \<lparr>Snippet = convertCodePointToEmoji (CodePoint emoji),
        UID = strings_ToUpper (uuid_text env k),
        Name = Description_B emoji,
        Keyword = strings_ReplaceAll (Description_B emoji) '' '' ''-''\<rparr>"

text \<open>The records of all lines, in order: what the two loops of the emoji-sequences
  programs go through.\<close>

definition records_B :: "string list \<Rightarrow> EmojiData_B list" where
  "records_B lines = concat (map parseEmojiLine_B lines)"


text \<open>
  A run to try the programs on: no operation on files fails, the UUIDs are told apart by
  their last digit, and the JSON is that of strings that need no escape. The world holds
  the icon and nothing else.
\<close>

definition plain_json :: "AlfredSnippet \<Rightarrow> string" where
  "plain_json s =
     ''{\"alfredsnippet\":{\"snippet\":\"'' @ Snippet s @ ''\",\"uid\":\"'' @ UID s
       @ ''\",\"name\":\"'' @ Name s @ ''\",\"keyword\":\"'' @ Keyword s @ ''\"}}''"

definition demo_env :: "bool \<Rightarrow> string list \<Rightarrow> env" where
  "demo_env flag lines =
     \<lparr>displayEmojis = flag, unicodeVersion = ''15.1'', fetched = Inr lines,
      uuid_text = (\<lambda>k. ''6ba7b810-9dad-11d1-80b4-00c04fd430c'' @ [char_of (48 + int k)]),
      json_Marshal = plain_json,
      io_error = (\<lambda>w op. None)\<rparr>"

definition demo_world :: world where
  "demo_world =
     \<lparr>files = [''../icon.png'' \<mapsto> ''PNG'', ''icon.png'' \<mapsto> ''PNG''],
      archives = Map.empty, console = [], uuids_drawn = 0, io_log = []\<rparr>"

section \<open>Properties of the library functions\<close>

lemma split_from_not_Nil: "split_from sep acc s \<noteq> []"
  by (induction sep acc s rule: split_from.induct) auto

lemma strings_Split_not_Nil: "strings_Split s sep \<noteq> []"
  by (simp add: strings_Split_def split_from_not_Nil)

lemma strings_Contains_sublist: "strings_Contains s sub \<longleftrightarrow> sublist sub s"
  by (induction s) (auto simp: sublist_Cons_right)

section \<open>Properties of the emoji-sequences line parser\<close>

lemma pair_loop_zip:
  "pair_loop i cps ds =
     map (\<lambda>(c, d). \<lparr>CodePoint = c, Description_B = d\<rparr>) (zip cps (drop i ds))"
proof (induction cps arbitrary: i)
  case Nil
  show ?case by simp
next
  case (Cons c cps)
  show ?case
  proof (cases "i < length ds")
    case True
    then have "drop i ds = ds ! i # drop (Suc i) ds"
      by (simp add: Cons_nth_drop_Suc)
    with True Cons show ?thesis by simp
  next
    case False
    with Cons show ?thesis by simp
  qed
qed

lemma parseEmojiLine_B_zip:
  "3 \<le> length (strings_Split line '';'') \<Longrightarrow>
   parseEmojiLine_B line =
     map (\<lambda>(c, d). \<lparr>CodePoint = c, Description_B = d\<rparr>)
       (zip (codePoint_endpoints line) (description_endpoints line))"
  by (simp add: parseEmojiLine_B_def Let_def pair_loop_zip codePoint_endpoints_def
      description_endpoints_def)

text \<open>
  Claim C1. For a line of the emoji-sequences format with at least three fields between
  semicolons, the parser pairs the i-th endpoint of the code-point field with the i-th
  endpoint of the description field (its comment cut off): there are as many records as
  the shorter of the two lists has endpoints, so never more than there are description
  endpoints, and the i-th record holds the i-th endpoint of each. With two endpoints on
  each side the records are exactly two, first with first and second with second.
\<close>

theorem C1_positional_pairing:
  assumes "3 \<le> length (strings_Split line '';'')"
  shows "length (parseEmojiLine_B line) =
           min (length (codePoint_endpoints line)) (length (description_endpoints line))
       \<and> length (parseEmojiLine_B line) \<le> length (description_endpoints line)
       \<and> (\<forall>i < length (parseEmojiLine_B line).
            parseEmojiLine_B line ! i =
              \<lparr>CodePoint = codePoint_endpoints line ! i,
               Description_B = description_endpoints line ! i\<rparr>)
       \<and> (length (codePoint_endpoints line) = 2 \<and> length (description_endpoints line) = 2 \<longrightarrow>
            parseEmojiLine_B line =
              [\<lparr>CodePoint = codePoint_endpoints line ! 0,
                Description_B = description_endpoints line ! 0\<rparr>,
               \<lparr>CodePoint = codePoint_endpoints line ! 1,
                Description_B = description_endpoints line ! 1\<rparr>])"
proof -
  let ?cs = "codePoint_endpoints line" and ?ds = "description_endpoints line"
  have eq: "parseEmojiLine_B line =
      map (\<lambda>(c, d). \<lparr>CodePoint = c, Description_B = d\<rparr>) (zip ?cs ?ds)"
    using assms by (rule parseEmojiLine_B_zip)
  have len: "length (parseEmojiLine_B line) = min (length ?cs) (length ?ds)"
    by (simp add: eq)
  have nth: "\<forall>i < length (parseEmojiLine_B line).
      parseEmojiLine_B line ! i = \<lparr>CodePoint = ?cs ! i, Description_B = ?ds ! i\<rparr>"
    by (simp add: eq)
  have two: "length ?cs = 2 \<and> length ?ds = 2 \<longrightarrow>
      parseEmojiLine_B line =
        [\<lparr>CodePoint = ?cs ! 0, Description_B = ?ds ! 0\<rparr>,
         \<lparr>CodePoint = ?cs ! 1, Description_B = ?ds ! 1\<rparr>]"
  proof
    assume l: "length ?cs = 2 \<and> length ?ds = 2"
    then obtain a b where cs: "?cs = [a, b]"
      by (metis (no_types, opaque_lifting) length_0_conv length_Suc_conv numeral_2_eq_2)
    from l obtain x y where ds: "?ds = [x, y]"
      by (metis (no_types, opaque_lifting) length_0_conv length_Suc_conv numeral_2_eq_2)
    show "parseEmojiLine_B line =
        [\<lparr>CodePoint = ?cs ! 0, Description_B = ?ds ! 0\<rparr>,
         \<lparr>CodePoint = ?cs ! 1, Description_B = ?ds ! 1\<rparr>]"
      by (simp add: eq cs ds)
  qed
  from len nth two show ?thesis by simp
qed

theorem C1_positional_pairing_witness:
  "3 \<le> length (strings_Split ''231A..231B ; Basic_Emoji ; watch..hourglass done # E0.6'' '';'')
   \<and> parseEmojiLine_B ''231A..231B ; Basic_Emoji ; watch..hourglass done # E0.6'' =
       [\<lparr>CodePoint = ''231A'', Description_B = ''watch''\<rparr>,
        \<lparr>CodePoint = ''231B'', Description_B = ''hourglass done''\<rparr>]"
proof -
  let ?l = "''231A..231B ; Basic_Emoji ; watch..hourglass done # E0.6''"
  have h: "3 \<le> length (strings_Split ?l '';'')" by code_simp
  have c: "codePoint_endpoints ?l = [''231A'', ''231B'']" by code_simp
  have d: "description_endpoints ?l = [''watch'', ''hourglass done'']" by code_simp
  from C1_positional_pairing [OF h] h show ?thesis by (simp add: c d)
qed

section \<open>Properties of the code-point resolver\<close>

lemma collect_runes_map_filter:
  "collect_runes acc toks = acc @ List.map_filter ParseInt_16_32 toks"
  by (induction toks arbitrary: acc) (auto simp: List.map_filter_simps split: option.splits)

text \<open>
  Claim C5. The code-point resolver reads the fields of its argument between white space,
  parses each as a hexadecimal number and passes over the fields that do not parse: its
  runes are those of the fields that parse, in order, and its result is their
  concatenation. \<open>"1F600"\<close> gives one character (U+1F600, four bytes in UTF-8),
  \<open>"1F1FA 1F1F8"\<close> gives two, and \<open>"ZZZZ"\<close>, which does not parse, gives the empty
  string.
\<close>

theorem C5_resolver_skips_invalid_tokens:
  "emojiRunes_of s = List.map_filter ParseInt_16_32 (strings_Fields s)
   \<and> convertCodePointToEmoji s =
       concat (map utf8_EncodeRune (List.map_filter ParseInt_16_32 (strings_Fields s)))
   \<and> emojiRunes_of ''1F600'' = [0x1F600]
   \<and> convertCodePointToEmoji ''1F600'' = [CHR 0xF0, CHR 0x9F, CHR 0x98, CHR 0x80]
   \<and> emojiRunes_of ''1F1FA 1F1F8'' = [0x1F1FA, 0x1F1F8]
   \<and> convertCodePointToEmoji ''1F1FA 1F1F8'' =
       [CHR 0xF0, CHR 0x9F, CHR 0x87, CHR 0xBA, CHR 0xF0, CHR 0x9F, CHR 0x87, CHR 0xB8]
   \<and> ParseInt_16_32 ''ZZZZ'' = None
   \<and> emojiRunes_of ''ZZZZ'' = []
   \<and> convertCodePointToEmoji ''ZZZZ'' = []"
proof -
  have g: "emojiRunes_of s = List.map_filter ParseInt_16_32 (strings_Fields s)"
    by (simp add: emojiRunes_of_def collect_runes_map_filter)
  have a: "emojiRunes_of ''1F600'' = [0x1F600]" by code_simp
  have b: "convertCodePointToEmoji ''1F600'' = [CHR 0xF0, CHR 0x9F, CHR 0x98, CHR 0x80]"
    by code_simp
  have c: "emojiRunes_of ''1F1FA 1F1F8'' = [0x1F1FA, 0x1F1F8]" by code_simp
  have d: "convertCodePointToEmoji ''1F1FA 1F1F8'' =
       [CHR 0xF0, CHR 0x9F, CHR 0x87, CHR 0xBA, CHR 0xF0, CHR 0x9F, CHR 0x87, CHR 0xB8]"
    by code_simp
  have e: "ParseInt_16_32 ''ZZZZ'' = None" by code_simp
  have f: "emojiRunes_of ''ZZZZ'' = []" by code_simp
  have h: "convertCodePointToEmoji ''ZZZZ'' = []" by code_simp
  show ?thesis
    unfolding convertCodePointToEmoji_def string_of_runes_def g [symmetric]
    using a b c d e f h
    by (simp add: convertCodePointToEmoji_def string_of_runes_def)
qed

theorem C5_resolver_skips_invalid_tokens_witness:
  "convertCodePointToEmoji ''1F600 ZZZZ 1F1FA'' =
     [CHR 0xF0, CHR 0x9F, CHR 0x98, CHR 0x80, CHR 0xF0, CHR 0x9F, CHR 0x87, CHR 0xBA]"
proof -
  have f: "List.map_filter ParseInt_16_32 (strings_Fields ''1F600 ZZZZ 1F1FA'') =
      [0x1F600, 0x1F1FA]"
    by code_simp
  have e: "concat (map utf8_EncodeRune [0x1F600, 0x1F1FA]) =
     [CHR 0xF0, CHR 0x9F, CHR 0x98, CHR 0x80, CHR 0xF0, CHR 0x9F, CHR 0x87, CHR 0xBA]"
    by code_simp
  from C5_resolver_skips_invalid_tokens [of "''1F600 ZZZZ 1F1FA''"] show ?thesis
    by (simp only: f e)
qed

section \<open>Properties of the emoji-test line parser\<close>

lemma splitN2_from_length:
  "sep \<noteq> [] \<Longrightarrow> length (splitN2_from sep acc s) = (if sublist sep s then 2 else 1)"
  by (induction sep acc s rule: splitN2_from.induct) (auto simp: sublist_Cons_right)

lemma strings_SplitN2_length:
  "sep \<noteq> [] \<Longrightarrow> strings_Contains s sep \<Longrightarrow> length (strings_SplitN2 s sep) = 2"
  by (simp add: strings_SplitN2_def splitN2_from_length strings_Contains_sublist)

text \<open>The parser with a pointer that is not nil, branch by branch.\<close>

lemma parseEmojiLine_Some:
  "parseEmojiLine line (Some sg) =
     (if strings_HasPrefix line ''# subgroup:''
      then Inr (Some (strings_TrimSpace (strings_TrimPrefix line ''# subgroup:'')), [])
      else if skipped_line line then Inr (Some sg, [])
      else if length (annotation_of line) \<le> 1 then Inl IndexOutOfRange
      else Inr (Some sg,
             [\<lparr>Emoji = fst (extractDescriptionAndEmoji (annotation_of line ! 1)),
               Description = snd (extractDescriptionAndEmoji (annotation_of line ! 1)),
               Subgroup = sg\<rparr>]))"
proof -
  have "\<not> skipped_line line \<Longrightarrow> length (strings_SplitN2 line '';'') = 2"
    by (rule strings_SplitN2_length) (auto simp: skipped_line_def)
  then show ?thesis
    by (auto simp: parseEmojiLine_def Let_def annotation_of_def split: prod.splits)
qed

lemma parseEmojiLine_records:
  assumes "parseEmojiLine line (Some sg) = Inr (cur', recs)"
  shows "length recs \<le> 1" and "\<forall>r \<in> set recs. Subgroup r = sg"
    and "recs \<noteq> [] \<Longrightarrow> cur' = Some sg"
    and "\<not> strings_HasPrefix line ''# subgroup:'' \<Longrightarrow> cur' = Some sg"
  using assms by (auto simp: parseEmojiLine_Some split: if_splits)

text \<open>
  Claim C2 says that a line that passes the filters gives a record only when its
  annotation matches the pattern. The parser does not look at what
  \<open>extractDescriptionAndEmoji\<close> returns: the annotation of the line below has no version
  token, the pattern does not match, and the parser returns a record all the same, with
  an empty glyph and an empty description.
\<close>

theorem C2_unmatched_annotation_gives_record:
  "annotation_of ''1F600 ; fully-qualified # no version here'' ! 1 = '' no version here''
   \<and> FindStringSubmatch '' no version here'' = None
   \<and> parseEmojiLine ''1F600 ; fully-qualified # no version here'' (Some ''face-smiling'') =
       Inr (Some ''face-smiling'',
            [\<lparr>Emoji = [], Description = [], Subgroup = ''face-smiling''\<rparr>])"
  by code_simp

lemma skipped_line_excluded:
  "strings_Contains line ''minimally-qualified'' \<or> strings_Contains line ''unqualified''
     \<or> strings_Contains line ''component'' \<Longrightarrow> skipped_line line"
  by (auto simp: skipped_line_def)

lemma excluded_no_record:
  assumes "strings_Contains line ''minimally-qualified'' \<or> strings_Contains line ''unqualified''
     \<or> strings_Contains line ''component''"
  shows "\<exists>sg'. parseEmojiLine line (Some sg) = Inr (Some sg', [])"
  using skipped_line_excluded [OF assms] by (simp add: parseEmojiLine_Some)

text \<open>
  Claim C4. A line that is annotated \<open>minimally-qualified\<close> or \<open>unqualified\<close>, or that
  contains \<open>component\<close>, gives no record (the parser returns, with an empty list). So of
  the four qualification states only \<open>fully-qualified\<close> can stand in the status field
  of a line that gives a record.
\<close>

theorem C4_only_fully_qualified:
  "(strings_Contains line ''minimally-qualified'' \<or> strings_Contains line ''unqualified''
      \<or> strings_Contains line ''component''
     \<longrightarrow> (\<exists>sg'. parseEmojiLine line (Some sg) = Inr (Some sg', [])))
   \<and> (parseEmojiLine (codePoints @ '';'' @ gap @ qualification_text q @ rest) (Some sg)
        = Inr (cur', r # rs) \<longrightarrow> q = FullyQualified)"
proof (intro conjI impI)
  assume "strings_Contains line ''minimally-qualified'' \<or> strings_Contains line ''unqualified''
      \<or> strings_Contains line ''component''"
  then show "\<exists>sg'. parseEmojiLine line (Some sg) = Inr (Some sg', [])"
    by (rule excluded_no_record)
next
  let ?l = "codePoints @ '';'' @ gap @ qualification_text q @ rest"
  assume rec: "parseEmojiLine ?l (Some sg) = Inr (cur', r # rs)"
  have here: "strings_Contains ?l (qualification_text q)"
    unfolding strings_Contains_sublist
    by (metis append.assoc sublist_appendI)
  show "q = FullyQualified"
  proof (rule ccontr)
    assume "q \<noteq> FullyQualified"
    with here have "strings_Contains ?l ''minimally-qualified''
        \<or> strings_Contains ?l ''unqualified'' \<or> strings_Contains ?l ''component''"
      by (cases q) auto
    from excluded_no_record [OF this, of sg] rec show False by auto
  qed
qed

theorem C4_only_fully_qualified_witness:
  "strings_Contains ''1F636 200D 1F32B ; minimally-qualified # X E13.1 face in clouds''
     ''minimally-qualified''
   \<and> parseEmojiLine ''1F636 200D 1F32B ; minimally-qualified # X E13.1 face in clouds''
       (Some ''face-neutral-skeptical'') = Inr (Some ''face-neutral-skeptical'', [])
   \<and> parseEmojiLine ''1F636 200D 1F32B FE0F ; fully-qualified # X E13.1 face in clouds''
       (Some ''face-neutral-skeptical'') =
       Inr (Some ''face-neutral-skeptical'',
            [\<lparr>Emoji = ''X'', Description = ''face-in-clouds'',
              Subgroup = ''face-neutral-skeptical''\<rparr>])"
proof -
  let ?l = "''1F636 200D 1F32B ; minimally-qualified # X E13.1 face in clouds''"
  have c: "strings_Contains ?l ''minimally-qualified''" by code_simp
  have h: "\<not> strings_HasPrefix ?l ''# subgroup:''" by code_simp
  from C4_only_fully_qualified [of ?l "''face-neutral-skeptical''"] c
  obtain sg' where p: "parseEmojiLine ?l (Some ''face-neutral-skeptical'') = Inr (Some sg', [])"
    by blast
  from parseEmojiLine_records(4) [OF p h] p
  have a: "parseEmojiLine ?l (Some ''face-neutral-skeptical'') =
      Inr (Some ''face-neutral-skeptical'', [])"
    by simp
  have b: "parseEmojiLine ''1F636 200D 1F32B FE0F ; fully-qualified # X E13.1 face in clouds''
       (Some ''face-neutral-skeptical'') =
       Inr (Some ''face-neutral-skeptical'',
            [\<lparr>Emoji = ''X'', Description = ''face-in-clouds'',
              Subgroup = ''face-neutral-skeptical''\<rparr>])"
    by code_simp
  from a b c show ?thesis by simp
qed

text \<open>
  Claim C9 says that the parser never panics. The filter lets a line through when it
  contains a semicolon and a \<open>#\<close>; the parser then takes the second piece between
  \<open>#\<close> of what follows the first semicolon. In the line below the \<open>#\<close> stands before
  the semicolon, so there is one piece only and the index is out of range.
\<close>

theorem C9_index_out_of_range:
  "strings_Contains ''a#b;c'' '';'' \<and> strings_Contains ''a#b;c'' ''#''
   \<and> strings_Split (strings_SplitN2 ''a#b;c'' '';'' ! 1) ''#'' = [''c'']
   \<and> parseEmojiLine ''a#b;c'' (Some ''face-smiling'') = Inl IndexOutOfRange"
  by code_simp

section \<open>The normal form of a description\<close>

lemma ReplaceAll_single_map:
  "strings_ReplaceAll s [c] [d] = map (\<lambda>x. if x = c then d else x) s"
  by (induction s) auto

lemma ReplaceAll_single_filter: "strings_ReplaceAll s [c] [] = filter (\<lambda>x. x \<noteq> c) s"
  by (induction s) auto

lemma set_ReplaceAll_delete: "set (strings_ReplaceAll s old []) \<subseteq> set s"
proof (induction s old "[] :: string" rule: strings_ReplaceAll.induct)
  case (1 old)
  show ?case by simp
next
  case (2 c cs old)
  show ?case
  proof (cases "old \<noteq> [] \<and> prefix old (c # cs)")
    case True
    with 2 have "set (strings_ReplaceAll (drop (length old) (c # cs)) old [])
        \<subseteq> set (drop (length old) (c # cs))" by simp
    also have "\<dots> \<subseteq> set (c # cs)" by (rule set_drop_subset)
    finally show ?thesis using True by simp
  next
    case False
    with 2 show ?thesis by auto
  qed
qed

lemma drop_runes_is_drop: "\<exists>n. drop_runes es s = drop n s"
proof (induction es s rule: drop_runes.induct)
  case (1 es)
  show ?case by simp
next
  case (2 es c cs)
  show ?case
  proof (cases "rune_at es (c # cs)")
    case None
    then have "drop_runes es (c # cs) = drop 0 (c # cs)" by simp
    then show ?thesis by blast
  next
    case (Some e)
    from 2 [OF Some] obtain n where
      "drop_runes es (drop (length e) (c # cs)) = drop n (drop (length e) (c # cs))" by blast
    with Some have "drop_runes es (c # cs) = drop (length e + n) (c # cs)"
      by (simp add: add.commute)
    then show ?thesis by blast
  qed
qed

lemma set_drop_runes: "set (drop_runes es s) \<subseteq> set s"
proof -
  obtain n where "drop_runes es s = drop n s" using drop_runes_is_drop by blast
  then show ?thesis by (simp add: set_drop_subset)
qed

lemma set_TrimSpace: "set (strings_TrimSpace s) \<subseteq> set s"
proof -
  have "set (strings_TrimRightSpace t) \<subseteq> set t" for t
    using set_drop_runes [of "map rev unicode_space_utf8" "rev t"]
    by (simp add: strings_TrimRightSpace_def)
  moreover have "set (strings_TrimLeftSpace s) \<subseteq> set s"
    by (simp add: strings_TrimLeftSpace_def set_drop_runes)
  ultimately show ?thesis unfolding strings_TrimSpace_def by blast
qed

lemma normalize_description_eq:
  "normalize_description m2 = delete_junk (hyphenated m2)"
proof -
  have "filter (\<lambda>x. x \<noteq> CHR '':'') (filter (\<lambda>x. x \<noteq> CHR '','') t) =
      filter (\<lambda>c. c \<noteq> CHR '','' \<and> c \<noteq> CHR '':'') t" for t :: string
    by (induction t) auto
  then show ?thesis
    by (simp add: normalize_description_def delete_junk_def hyphenated_def Let_def
        ReplaceAll_single_map ReplaceAll_single_filter)
qed

lemma set_delete_junk: "set (delete_junk s) \<subseteq> set s"
  unfolding delete_junk_def
  by (meson set_ReplaceAll_delete subset_trans)

lemma set_hyphenated:
  "set (hyphenated m2) \<subseteq> insert (CHR ''-'') (set m2) - {CHR '' '', CHR '','', CHR '':''}"
proof -
  let ?h = "map (\<lambda>c. if c = CHR '' '' then CHR ''-'' else c) m2"
  have "set ?h \<subseteq> insert (CHR ''-'') (set m2) - {CHR '' ''}" by auto
  with set_TrimSpace [of ?h]
  have "set (strings_TrimSpace ?h) \<subseteq> insert (CHR ''-'') (set m2) - {CHR '' ''}" by blast
  then show ?thesis unfolding hyphenated_def by auto
qed

lemma normalize_description_chars:
  "CHR '' '' \<notin> set (normalize_description m2) \<and> CHR '','' \<notin> set (normalize_description m2)
   \<and> CHR '':'' \<notin> set (normalize_description m2)"
  using set_delete_junk [of "hyphenated m2"] set_hyphenated [of m2]
  unfolding normalize_description_eq by blast

text \<open>
  A replacement changes nothing in a string that lacks one of the bytes of the string
  replaced.
\<close>

lemma ReplaceAll_absent:
  "x \<in> set old \<Longrightarrow> x \<notin> set s \<Longrightarrow> strings_ReplaceAll s old new = s"
proof (induction s)
  case Nil
  show ?case by simp
next
  case (Cons c cs)
  have "\<not> prefix old (c # cs)"
  proof
    assume "prefix old (c # cs)"
    then have "set old \<subseteq> set (c # cs)" by (rule set_mono_prefix)
    with Cons.prems show False by blast
  qed
  with Cons show ?case by simp
qed

lemma delete_junk_absent: "CHR 0x84 \<notin> set s \<Longrightarrow> delete_junk s = s"
  by (simp add: delete_junk_def junk_first_def junk_second_def junk_third_def junk_fourth_def
      ReplaceAll_absent [of "CHR 0x84"])

lemma hyphenated_absent: "CHR 0x84 \<notin> set m2 \<Longrightarrow> CHR 0x84 \<notin> set (hyphenated m2)"
  using set_hyphenated [of m2] by auto

text \<open>
  Claim C3, amended. The description of a record that the parser makes contains no space
  (U+0020), no comma and no colon. When the annotation matches the pattern, the
  description is the matched text with a hyphen for each of its spaces (so a run of k
  spaces gives k hyphens), trimmed of the white space at its ends and without its commas
  and colons, from which the four seven-byte strings of the source are then deleted one
  after the other; white space inside it that is no space, such as a tab, stays. The
  four deletions change nothing when the matched text has no byte \<open>0x84\<close>, which each
  of the four strings holds: the description of the flag of Ivory Coast below, which is
  written with an o with circumflex and a right single curly quotation mark, keeps both.
\<close>

theorem C3_description_normalized:
  assumes "parseEmojiLine line (Some sg) = Inr (cur', recs)" and "r \<in> set recs"
  shows "CHR '' '' \<notin> set (Description r) \<and> CHR '','' \<notin> set (Description r)
       \<and> CHR '':'' \<notin> set (Description r)
       \<and> (\<forall>m1 m2. FindStringSubmatch (annotation_of line ! 1) = Some (m1, m2) \<longrightarrow>
            Description r = delete_junk (hyphenated m2)
            \<and> (CHR 0x84 \<notin> set m2 \<longrightarrow> Description r = hyphenated m2))"
proof -
  let ?a = "annotation_of line ! 1"
  from assms have d: "Description r = snd (extractDescriptionAndEmoji ?a)"
    by (auto simp: parseEmojiLine_Some split: if_splits)
  show ?thesis
  proof (cases "FindStringSubmatch ?a")
    case None
    with d have "Description r = []" by (simp add: extractDescriptionAndEmoji_def)
    with None show ?thesis by simp
  next
    case (Some m)
    obtain m1 m2 where m: "m = (m1, m2)" by (cases m)
    with Some d have dn: "Description r = normalize_description m2"
      by (simp add: extractDescriptionAndEmoji_def)
    have q: "CHR 0x84 \<notin> set m2 \<longrightarrow> Description r = hyphenated m2"
      using dn by (simp add: normalize_description_eq delete_junk_absent hyphenated_absent)
    from normalize_description_chars [of m2] dn Some m q show ?thesis
      by (simp add: normalize_description_eq)
  qed
qed

theorem C3_description_normalized_witness:
  "parseEmojiLine
     (''1F1E8 1F1EE ; fully-qualified # X E2.0 flag: C'' @ [CHR 0xC3, CHR 0xB4] @ ''te d''
        @ [CHR 0xE2, CHR 0x80, CHR 0x99] @ ''Ivoire'') (Some ''country-flag'') =
     Inr (Some ''country-flag'',
          [\<lparr>Emoji = ''X'',
            Description = ''flag-C'' @ [CHR 0xC3, CHR 0xB4] @ ''te-d''
              @ [CHR 0xE2, CHR 0x80, CHR 0x99] @ ''Ivoire'',
            Subgroup = ''country-flag''\<rparr>])
   \<and> FindStringSubmatch
       (annotation_of (''1F1E8 1F1EE ; fully-qualified # X E2.0 flag: C'' @ [CHR 0xC3, CHR 0xB4]
          @ ''te d'' @ [CHR 0xE2, CHR 0x80, CHR 0x99] @ ''Ivoire'') ! 1) =
       Some (''X'', ''flag: C'' @ [CHR 0xC3, CHR 0xB4] @ ''te d''
                      @ [CHR 0xE2, CHR 0x80, CHR 0x99] @ ''Ivoire'')
   \<and> hyphenated (''flag: C'' @ [CHR 0xC3, CHR 0xB4] @ ''te d''
                    @ [CHR 0xE2, CHR 0x80, CHR 0x99] @ ''Ivoire'') =
       ''flag-C'' @ [CHR 0xC3, CHR 0xB4] @ ''te-d'' @ [CHR 0xE2, CHR 0x80, CHR 0x99] @ ''Ivoire''
   \<and> CHR '' '' \<notin> set (''flag-C'' @ [CHR 0xC3, CHR 0xB4] @ ''te-d''
                          @ [CHR 0xE2, CHR 0x80, CHR 0x99] @ ''Ivoire'')
   \<and> strings_Contains (''flag-C'' @ [CHR 0xC3, CHR 0xB4] @ ''te-d''
                          @ [CHR 0xE2, CHR 0x80, CHR 0x99] @ ''Ivoire'') curly_right_single"
proof -
  let ?l = "''1F1E8 1F1EE ; fully-qualified # X E2.0 flag: C'' @ [CHR 0xC3, CHR 0xB4] @ ''te d''
        @ [CHR 0xE2, CHR 0x80, CHR 0x99] @ ''Ivoire''"
  let ?m2 = "''flag: C'' @ [CHR 0xC3, CHR 0xB4] @ ''te d'' @ [CHR 0xE2, CHR 0x80, CHR 0x99]
        @ ''Ivoire''"
  let ?d = "''flag-C'' @ [CHR 0xC3, CHR 0xB4] @ ''te-d'' @ [CHR 0xE2, CHR 0x80, CHR 0x99]
        @ ''Ivoire''"
  let ?r = "\<lparr>Emoji = ''X'', Description = ?d, Subgroup = ''country-flag''\<rparr>"
  have p: "parseEmojiLine ?l (Some ''country-flag'') = Inr (Some ''country-flag'', [?r])"
    by code_simp
  have f: "FindStringSubmatch (annotation_of ?l ! 1) = Some (''X'', ?m2)" by code_simp
  have n: "CHR 0x84 \<notin> set ?m2" by simp
  have m: "?r \<in> set [?r]" by simp
  from C3_description_normalized [OF p m] f n
  have a: "CHR '' '' \<notin> set (Description ?r)" and b: "Description ?r = hyphenated ?m2"
    by blast+
  have sel: "Description ?r = ?d" by simp
  from a have c: "CHR '' '' \<notin> set ?d" by simp
  from b have "hyphenated ?m2 = Description ?r" by (rule sym)
  also note sel
  finally have e: "hyphenated ?m2 = ?d" .
  have q: "strings_Contains ?d curly_right_single" by code_simp
  from p f e c q show ?thesis by (intro conjI)
qed

text \<open>
  Claim C3 as it is stated fails on the line below: the description has a tab between
  \<open>a\<close> and \<open>b\<close> and two spaces between \<open>b\<close> and \<open>c\<close>; the parser keeps the tab,
  which is white space, and writes two hyphens for the two spaces.
\<close>

theorem C3_counterexample:
  "parseEmojiLine (''1F600 ; fully-qualified # X E1.0 a'' @ [CHR 0x09] @ ''b  c'')
     (Some ''face-smiling'') =
   Inr (Some ''face-smiling'',
        [\<lparr>Emoji = ''X'', Description = ''a'' @ [CHR 0x09] @ ''b--c'',
          Subgroup = ''face-smiling''\<rparr>])"
  by code_simp

section \<open>Properties of the scan of the emoji-test lines\<close>

lemma scan_lines_append:
  "scan_lines act (xs @ ys) cur s =
     (case scan_lines act xs cur s of
        Inl stop \<Rightarrow> Inl stop
      | Inr (cur', s') \<Rightarrow> scan_lines act ys cur' s')"
  by (induction act xs cur s rule: scan_lines.induct)
     (auto split: option.splits sum.splits)

lemma fold_collect: "fold collect rs seen = seen @ rs"
  by (induction rs arbitrary: seen) (simp_all add: collect_def)

text \<open>
  A run of lines without a subgroup header, scanned under the subgroup \<open>sg\<close>: the
  subgroup stays, and each line that the filter lets through adds one record, which
  carries \<open>sg\<close>.
\<close>

lemma scan_block:
  assumes "\<forall>l \<in> set ds. \<not> strings_HasPrefix l ''# subgroup:''"
    and "scan_lines collect ds (Some sg) seen = Inr (cur', recs)"
  shows "cur' = Some sg \<and>
         (\<exists>new. recs = seen @ new \<and> (\<forall>r \<in> set new. Subgroup r = sg)
            \<and> length new = length (filter (\<lambda>l. \<not> skipped_line l) ds))"
  using assms
proof (induction ds arbitrary: seen)
  case Nil
  then show ?case by simp
next
  case (Cons l ds)
  from Cons.prems(1) have nh: "\<not> strings_HasPrefix l ''# subgroup:''"
    and rest: "\<forall>l \<in> set ds. \<not> strings_HasPrefix l ''# subgroup:''"
    by simp_all
  show ?case
  proof (cases "skipped_line l")
    case True
    with nh Cons.prems(2) have "scan_lines collect ds (Some sg) seen = Inr (cur', recs)"
      by (simp add: parseEmojiLine_Some)
    from Cons.IH [OF rest this] True show ?thesis by simp
  next
    case False
    let ?r = "\<lparr>Emoji = fst (extractDescriptionAndEmoji (annotation_of l ! 1)),
               Description = snd (extractDescriptionAndEmoji (annotation_of l ! 1)),
               Subgroup = sg\<rparr>"
    from nh False Cons.prems(2) have ok: "\<not> length (annotation_of l) \<le> 1"
      by (auto simp: parseEmojiLine_Some split: if_splits)
    with nh False Cons.prems(2)
    have "scan_lines collect ds (Some sg) (seen @ [?r]) = Inr (cur', recs)"
      by (simp add: parseEmojiLine_Some fold_collect)
    from Cons.IH [OF rest this] obtain new where
      c: "cur' = Some sg" and r: "recs = (seen @ [?r]) @ new"
      and s: "\<forall>r \<in> set new. Subgroup r = sg"
      and n: "length new = length (filter (\<lambda>l. \<not> skipped_line l) ds)"
      by blast
    have "recs = seen @ (?r # new) \<and> (\<forall>r \<in> set (?r # new). Subgroup r = sg)
        \<and> length (?r # new) = length (filter (\<lambda>l. \<not> skipped_line l) (l # ds))"
      using r s n False by simp
    with c show ?thesis by blast
  qed
qed

text \<open>
  Claim C6. When the scan meets a subgroup header and then data lines (lines that are no
  header), and does not stop in a panic, every record it makes from these lines carries
  the subgroup that \<open>main\<close> set at the header; there is one such record for each of the
  lines that the filter of the parser lets through, so N such lines give N records with
  the same subgroup; and the subgroup stays current until the next header: the lines
  after the block are scanned from the state that the block leaves.
\<close>

theorem C6_subgroup_carried:
  assumes "strings_HasPrefix h ''# subgroup:''"
    and "\<forall>l \<in> set ds. \<not> strings_HasPrefix l ''# subgroup:''"
    and "scan_lines collect (h # ds) cur seen = Inr (cur', recs)"
  shows "cur' = Some (clean_subgroup h)
       \<and> (\<exists>new. recs = seen @ new
            \<and> (\<forall>r \<in> set new. Subgroup r = clean_subgroup h)
            \<and> length new = length (filter (\<lambda>l. \<not> skipped_line l) ds))
       \<and> scan_lines collect (h # ds @ rest) cur seen = scan_lines collect rest cur' recs"
proof -
  from assms(1,3)
  have blk: "scan_lines collect ds (Some (clean_subgroup h)) seen = Inr (cur', recs)"
    by simp
  have "scan_lines collect ((h # ds) @ rest) cur seen = scan_lines collect rest cur' recs"
    by (simp only: scan_lines_append assms(3) sum.case prod.case)
  with scan_block [OF assms(2) blk] show ?thesis by simp
qed

theorem C6_subgroup_carried_witness:
  "strings_HasPrefix ''# subgroup: face-smiling'' ''# subgroup:''
   \<and> scan_lines collect
       [''# subgroup: face-smiling'',
        ''1F600 ; fully-qualified # X E1.0 grinning face'',
        ''1F603 ; fully-qualified # Y E0.6 grinning face with big eyes''] None [] =
     Inr (Some ''face-smiling'',
          [\<lparr>Emoji = ''X'', Description = ''grinning-face'', Subgroup = ''face-smiling''\<rparr>,
           \<lparr>Emoji = ''Y'', Description = ''grinning-face-with-big-eyes'',
            Subgroup = ''face-smiling''\<rparr>])
   \<and> clean_subgroup ''# subgroup: face-smiling'' = ''face-smiling''"
proof -
  let ?h = "''# subgroup: face-smiling''"
  let ?ds = "[''1F600 ; fully-qualified # X E1.0 grinning face'',
        ''1F603 ; fully-qualified # Y E0.6 grinning face with big eyes'']"
  let ?recs = "[\<lparr>Emoji = ''X'', Description = ''grinning-face'', Subgroup = ''face-smiling''\<rparr>,
           \<lparr>Emoji = ''Y'', Description = ''grinning-face-with-big-eyes'',
            Subgroup = ''face-smiling''\<rparr>]"
  have h: "strings_HasPrefix ?h ''# subgroup:''" by code_simp
  have d: "\<forall>l \<in> set ?ds. \<not> strings_HasPrefix l ''# subgroup:''" by code_simp
  have s: "scan_lines collect (?h # ?ds) None [] = Inr (Some ''face-smiling'', ?recs)"
    by code_simp
  have "Some ''face-smiling'' = Some (clean_subgroup ?h)"
    using C6_subgroup_carried [OF h d s, THEN conjunct1] .
  then have e: "clean_subgroup ?h = ''face-smiling''" by simp
  show ?thesis by (intro conjI h s e)
qed



section \<open>Properties of the programs\<close>

text \<open>
  The loop of \<open>main\<close> does with the records of the scan, in order, what it does with
  each record: the scan can be run for its records first.
\<close>

lemma scan_lines_collect_seen:
  "scan_lines collect ls cur seen =
     (case scan_lines collect ls cur [] of
        Inl (p, rs) \<Rightarrow> Inl (p, seen @ rs)
      | Inr (c, rs) \<Rightarrow> Inr (c, seen @ rs))"
proof (induction ls arbitrary: cur seen)
  case Nil
  show ?case by simp
next
  case (Cons l ls)
  show ?case
  proof (cases "strings_HasPrefix l ''# subgroup:''")
    case True
    with Cons [of "Some (clean_subgroup l)" seen] show ?thesis by simp
  next
    case False
    show ?thesis
    proof (cases cur)
      case None
      with False Cons [of None seen] show ?thesis by simp
    next
      case (Some sg)
      show ?thesis
      proof (cases "parseEmojiLine l (Some sg)")
        case (Inl p)
        with False Some show ?thesis by simp
      next
        case (Inr res)
        obtain c rs where res: "res = (c, rs)" by (cases res)
        from Cons [of c "seen @ rs"] Cons [of c rs]
        show ?thesis using False Some Inr res
          by (simp add: fold_collect split: sum.splits prod.splits)
      qed
    qed
  qed
qed

lemma scan_lines_fold:
  "scan_lines act ls cur s =
     (case scan_lines collect ls cur [] of
        Inl (p, rs) \<Rightarrow> Inl (p, fold act rs s)
      | Inr (c, rs) \<Rightarrow> Inr (c, fold act rs s))"
proof (induction ls arbitrary: cur s)
  case Nil
  show ?case by simp
next
  case (Cons l ls)
  show ?case
  proof (cases "strings_HasPrefix l ''# subgroup:''")
    case True
    with Cons [of "Some (clean_subgroup l)" s] show ?thesis by simp
  next
    case False
    show ?thesis
    proof (cases cur)
      case None
      with False Cons [of None s] show ?thesis by simp
    next
      case (Some sg)
      show ?thesis
      proof (cases "parseEmojiLine l (Some sg)")
        case (Inl p)
        with False Some show ?thesis by simp
      next
        case (Inr res)
        obtain c rs where res: "res = (c, rs)" by (cases res)
        from Cons [of c "fold act rs s"] scan_lines_collect_seen [of ls c rs]
        show ?thesis using False Some Inr res
          by (simp add: fold_collect split: sum.splits prod.splits)
      qed
    qed
  qed
qed


lemma emit_gen:
  "\<not> displayEmojis env \<Longrightarrow>
   emit env = gen_emit env (snippet_path env) (snippet_json env) Description"
  by (intro ext)
     (simp add: emit_def gen_emit_def generateUID_def generateAlfredSnippetJSON_def
       os_WriteFile_def attempt_def Print_def snippet_path_def snippet_json_def Let_def
       split: prod.splits option.splits)

lemma emit_B_gen:
  "\<not> displayEmojis env \<Longrightarrow>
   emit_B env = gen_emit env (snippet_path_B env) (snippet_json_B env) Description_B"
  by (intro ext)
     (simp add: emit_B_def gen_emit_def generateUID_def generateAlfredSnippetJSON_B_def
       os_WriteFile_def attempt_def Print_def snippet_path_B_def snippet_json_B_def Let_def
       split: prod.splits option.splits)

lemma gen_emit_cases:
  "gen_emit env pf jf df r (fz, w) = (fz', w') \<Longrightarrow>
   uuids_drawn w' = Suc (uuids_drawn w)
   \<and> io_log w' = io_log w @ [WriteFile (pf (uuids_drawn w) r)]
   \<and> ((fz' = fz \<and> files w' = files w)
      \<or> (fz' = fz @ [pf (uuids_drawn w) r]
         \<and> files w' = (files w)(pf (uuids_drawn w) r \<mapsto> jf (uuids_drawn w) r)))"
  by (auto simp: gen_emit_def attempt_def Print_def Let_def split: option.splits)

lemma fold_gen_emit:
  "fold (gen_emit env pf jf df) rs (fz, w) = (fz', w') \<Longrightarrow>
   uuids_drawn w' = uuids_drawn w + length rs
   \<and> io_log w' = io_log w @ map WriteFile (paths_from pf (uuids_drawn w) rs)
   \<and> (\<exists>new. fz' = fz @ new
         \<and> (\<forall>q. q \<notin> set new \<longrightarrow> files w' q = files w q)
         \<and> (\<forall>q \<in> set new. files w' q \<noteq> None))"
proof (induction rs arbitrary: fz w)
  case Nil
  then show ?case by simp
next
  case (Cons r rs)
  obtain fz1 w1 where s1: "gen_emit env pf jf df r (fz, w) = (fz1, w1)"
    by (cases "gen_emit env pf jf df r (fz, w)")
  with Cons.prems have rest: "fold (gen_emit env pf jf df) rs (fz1, w1) = (fz', w')" by simp
  from gen_emit_cases [OF s1] have u1: "uuids_drawn w1 = Suc (uuids_drawn w)"
    and l1: "io_log w1 = io_log w @ [WriteFile (pf (uuids_drawn w) r)]"
    and c1: "(fz1 = fz \<and> files w1 = files w)
      \<or> (fz1 = fz @ [pf (uuids_drawn w) r]
         \<and> files w1 = (files w)(pf (uuids_drawn w) r \<mapsto> jf (uuids_drawn w) r))"
    by simp_all
  from Cons.IH [OF rest] obtain new where
    u: "uuids_drawn w' = uuids_drawn w1 + length rs"
    and l: "io_log w' = io_log w1 @ map WriteFile (paths_from pf (uuids_drawn w1) rs)"
    and n: "fz' = fz1 @ new"
    and f: "\<forall>q. q \<notin> set new \<longrightarrow> files w' q = files w1 q"
    and e: "\<forall>q \<in> set new. files w' q \<noteq> None"
    by blast
  from c1 show ?case
  proof
    assume a: "fz1 = fz \<and> files w1 = files w"
    with n f e have "fz' = fz @ new \<and> (\<forall>q. q \<notin> set new \<longrightarrow> files w' q = files w q)
        \<and> (\<forall>q \<in> set new. files w' q \<noteq> None)" by simp
    with u l u1 l1 show ?thesis by auto
  next
    let ?p = "pf (uuids_drawn w) r"
    assume a: "fz1 = fz @ [?p] \<and> files w1 = (files w)(?p \<mapsto> jf (uuids_drawn w) r)"
    have "fz' = fz @ (?p # new)" using a n by simp
    moreover have "\<forall>q. q \<notin> set (?p # new) \<longrightarrow> files w' q = files w q"
      using a f by simp
    moreover have "\<forall>q \<in> set (?p # new). files w' q \<noteq> None"
    proof
      fix q assume q: "q \<in> set (?p # new)"
      show "files w' q \<noteq> None"
      proof (cases "q \<in> set new")
        case True with e show ?thesis by simp
      next
        case False
        with q have "q = ?p" by simp
        with False f a show ?thesis by simp
      qed
    qed
    ultimately have "\<exists>new. fz' = fz @ new
         \<and> (\<forall>q. q \<notin> set new \<longrightarrow> files w' q = files w q)
         \<and> (\<forall>q \<in> set new. files w' q \<noteq> None)" by blast
    with u l u1 l1 show ?thesis by auto
  qed
qed

lemma addFileToZip_named_Inr:
  "addFileToZip_named nm env w entries f = Inr entries1 \<Longrightarrow>
   \<exists>data. files w f = Some data \<and> entries1 = entries @ [(nm f, data)]"
  by (auto simp: addFileToZip_named_def split: option.splits)

lemma add_files_ok:
  "add_files (addFileToZip_named nm) env w entries fs = (None, entries', w') \<Longrightarrow>
   entries' = entries @ map (\<lambda>f. (nm f, the (files w f))) fs
   \<and> (\<forall>f \<in> set fs. files w f \<noteq> None)
   \<and> files w' = files w \<and> archives w' = archives w"
proof (induction fs arbitrary: entries w)
  case Nil
  then show ?case by simp
next
  case (Cons f fs)
  show ?case
  proof (cases "addFileToZip_named nm env w entries f")
    case (Inl e)
    with Cons.prems show ?thesis by simp
  next
    case (Inr entries1)
    from addFileToZip_named_Inr [OF Inr] obtain data where
      d: "files w f = Some data" and e1: "entries1 = entries @ [(nm f, data)]"
      by blast
    from Cons.prems Inr
    have rest: "add_files (addFileToZip_named nm) env (attempt (OpenFile f) w) entries1 fs
        = (None, entries', w')"
      by simp
    from Cons.IH [OF rest] d e1 show ?thesis by (simp add: attempt_def)
  qed
qed


lemma zipFiles_with_ok:
  assumes "zipFiles_with (addFileToZip_named nm) env z fs w = (None, w')"
  shows "archives w' z = Some (map (\<lambda>f. (nm f, the (files w f))) fs)
       \<and> (\<forall>f \<in> set fs. files w f \<noteq> None)"
proof -
  let ?w1 = "attempt (CreateFile z) w"
  let ?w2 = "?w1\<lparr>files := (files ?w1)(z := None), archives := (archives ?w1)(z \<mapsto> [])\<rparr>"
  obtain err entries w3 where a: "add_files (addFileToZip_named nm) env ?w2 [] fs = (err, entries, w3)"
    by (cases "add_files (addFileToZip_named nm) env ?w2 [] fs")
  with assms have e: "err = None" and w': "w' = w3\<lparr>archives := (archives w3)(z \<mapsto> entries)\<rparr>"
    by (auto simp: zipFiles_with_def Let_def split: option.splits)
  from add_files_ok [OF a [unfolded e]]
  have en: "entries = map (\<lambda>f. (nm f, the (files ?w2 f))) fs"
    and ex: "\<forall>f \<in> set fs. files ?w2 f \<noteq> None"
    by simp_all
  from ex have nz: "\<forall>f \<in> set fs. f \<noteq> z \<and> files w f \<noteq> None"
    by (auto simp: attempt_def split: if_splits)
  then have "map (\<lambda>f. (nm f, the (files ?w2 f))) fs = map (\<lambda>f. (nm f, the (files w f))) fs"
    by (intro map_cong) (auto simp: attempt_def)
  with en w' nz show ?thesis by simp
qed


lemma manifest_and_icon_cases:
  assumes "manifest_and_icon (\<lambda>env path. os_WriteFile env path content) plist icon env (fz, w)
     = (fz2, w2)"
  shows "io_log w2 = io_log w @ [WriteFile plist]
       \<and> ((fz2 = fz @ [icon] \<and> files w2 = files w)
          \<or> (fz2 = fz @ [plist, icon] \<and> files w2 = (files w)(plist \<mapsto> content)))"
  using assms
  by (auto simp: manifest_and_icon_def os_WriteFile_def attempt_def Print_def Let_def
      split: option.splits prod.splits)

lemma generateInfoPlist_eq:
  "generateInfoPlist = (\<lambda>env path. os_WriteFile env path plistContent)"
  "generateInfoPlist_B = (\<lambda>env path. os_WriteFile env path plistContent_B)"
  by (intro ext, simp add: generateInfoPlist_def generateInfoPlist_B_def)+

lemma fold_lines_B:
  "fold (\<lambda>line. fold f (parseEmojiLine_B line)) lines st = fold f (records_B lines) st"
  by (induction lines arbitrary: st) (simp_all add: records_B_def)







lemma main_loop:
  assumes "startup env w = (Inr lines, w0)"
  shows "main env w =
     (case scan_lines collect lines None [] of
        Inl (p, rs) \<Rightarrow> Inl (p, snd (fold (emit env) rs ([], w0)))
      | Inr (cur, rs) \<Rightarrow>
          if \<not> displayEmojis env then Inr (package env (fold (emit env) rs ([], w0)))
          else Inr (snd (fold (emit env) rs ([], w0))))"
  using assms scan_lines_fold [of "emit env" lines None "([], w0)"]
  by (simp add: main_def startup_def Let_def split: sum.splits prod.splits)


lemma main_B_loop:
  assumes "fetchEmojiData_B env = Inr lines"
  shows "main_B env w =
     (if \<not> displayEmojis env then package_B env (fold (emit_B env) (records_B lines) ([], startup_B w))
      else snd (fold (emit_B env) (records_B lines) ([], startup_B w)))"
  using assms by (simp add: main_B_def startup_B_def Let_def fold_lines_B)







lemma written_file_archived:
  assumes wr: "gen_emit env pf jf df r (fz1, w1) = (fz1 @ [p], w2)"
    and st3: "fold (gen_emit env pf jf df) rs2 (fz1 @ [p], w2) = (fz3, w3)"
    and m: "manifest_and_icon (\<lambda>env path. os_WriteFile env path content) plist icon env (fz3, w3)
        = (fzm, wm)"
    and dist: "distinct fzm"
    and z: "zipFiles_with (addFileToZip_named nm) env zn fzm wm = (None, w4)"
  shows "p = pf (uuids_drawn w1) r \<and> files w2 p = Some (jf (uuids_drawn w1) r)
       \<and> (nm p, jf (uuids_drawn w1) r) \<in> set (the (archives w4 zn))"
proof -
  let ?k = "uuids_drawn w1"
  from gen_emit_cases [OF wr]
  have p: "p = pf ?k r" and f2: "files w2 = (files w1)(pf ?k r \<mapsto> jf ?k r)"
    by auto
  from fold_gen_emit [OF st3] obtain new where
    n: "fz3 = (fz1 @ [p]) @ new" and fr: "\<forall>q. q \<notin> set new \<longrightarrow> files w3 q = files w2 q"
    by blast
  from manifest_and_icon_cases [OF m]
  have c: "(fzm = fz3 @ [icon] \<and> files wm = files w3)
      \<or> (fzm = fz3 @ [plist, icon] \<and> files wm = (files w3)(plist \<mapsto> content))"
    by simp
  from c n dist have pn: "p \<notin> set new" by auto
  from c n have pin: "p \<in> set fzm" by auto
  have "files wm p = files w3 p"
    using c n dist by auto
  with fr pn f2 p have data: "files wm p = Some (jf ?k r)" by simp
  from zipFiles_with_ok [OF z]
  have "archives w4 zn = Some (map (\<lambda>f. (nm f, the (files wm f))) fzm)" by simp
  with pin data have "(nm p, jf ?k r) \<in> set (the (archives w4 zn))" by force
  with p f2 show ?thesis by simp
qed

text \<open>
  Claim C8, amended. When \<open>zipFiles\<close> returns without error, the archive holds one
  entry for each file of its list, in order, with the bytes that the file has on disk
  when the archive is built: in the emoji-test program under the last element of the
  file's path, in \<open>src/main.go\<close> under the path itself (which is the base name only
  when the path has no directory part). In a run without the flag whose start gives the
  lines, a record whose snippet file is written at \<open>p\<close> leaves the JSON of the record
  at \<open>p\<close>; when the list handed
  to \<open>zipFiles\<close> names no path twice and the archive is built without error, the
  archive holds that JSON, under the base name of \<open>p\<close> in the emoji-test program and
  under \<open>p\<close> in \<open>src/main.go\<close>.
\<close>

theorem C8_archive_entries:
  "(zipFiles env z fs w = (None, w') \<longrightarrow>
      archives w' z = Some (map (\<lambda>f. (snd (filepath_Split f), the (files w f))) fs)
      \<and> (\<forall>f \<in> set fs. files w f \<noteq> None))
   \<and> (zipFiles_B env z fs w = (None, w') \<longrightarrow>
      archives w' z = Some (map (\<lambda>f. (f, the (files w f))) fs)
      \<and> (\<forall>f \<in> set fs. files w f \<noteq> None))
   \<and> (\<not> displayEmojis env \<and> startup env ws = (Inr lines, w0)
       \<and> scan_lines collect lines None [] = Inr (cur, rs1 @ r # rs2)
       \<and> fold (emit env) rs1 ([], w0) = (fz1, w1)
       \<and> emit env r (fz1, w1) = (fz1 @ [p], w2)
       \<and> distinct (fst (manifest_and_icon generateInfoPlist (filepath_Join ''build'' ''info.plist'')
                         ''../icon.png'' env (fold (emit env) rs2 (fz1 @ [p], w2))))
       \<and> build_archive env (fold (emit env) rs2 (fz1 @ [p], w2)) = (None, w4)
      \<longrightarrow> p = snippet_path env (uuids_drawn w1) r
        \<and> files w2 p = Some (snippet_json env (uuids_drawn w1) r)
        \<and> (snd (filepath_Split p), snippet_json env (uuids_drawn w1) r)
             \<in> set (the (archives w4 (zipFileName env)))
        \<and> main env ws =
             Inr (os_RemoveAll ''build''
                    (Print (''alfredmoji.alfredsnippets file created successfully.'' @ newline) w4)))
   \<and> (\<not> displayEmojis env \<and> fetchEmojiData_B env = Inr lines
       \<and> records_B lines = rb1 @ rb # rb2
       \<and> fold (emit_B env) rb1 ([], startup_B ws) = (fz1, w1)
       \<and> emit_B env rb (fz1, w1) = (fz1 @ [p], w2)
       \<and> distinct (fst (manifest_and_icon generateInfoPlist_B (filepath_Join [] ''info.plist'')
                         ''icon.png'' env (fold (emit_B env) rb2 (fz1 @ [p], w2))))
       \<and> build_archive_B env (fold (emit_B env) rb2 (fz1 @ [p], w2)) = (None, w4)
      \<longrightarrow> p = snippet_path_B env (uuids_drawn w1) rb
        \<and> files w2 p = Some (snippet_json_B env (uuids_drawn w1) rb)
        \<and> (p, snippet_json_B env (uuids_drawn w1) rb) \<in> set (the (archives w4 zipFileName_B))
        \<and> main_B env ws =
             os_Remove ''*.json''
               (Print (''EmojiPack.alfredsnippets file created successfully.'' @ newline) w4))"
proof (intro conjI impI)
  assume "zipFiles env z fs w = (None, w')"
  then have "zipFiles_with (addFileToZip_named (\<lambda>filename. snd (filepath_Split filename)))
      env z fs w = (None, w')"
    by (simp add: zipFiles_def addFileToZip_def)
  from zipFiles_with_ok [OF this]
  show "archives w' z = Some (map (\<lambda>f. (snd (filepath_Split f), the (files w f))) fs)"
    and "\<forall>f \<in> set fs. files w f \<noteq> None"
    by simp_all
next
  assume "zipFiles_B env z fs w = (None, w')"
  then have "zipFiles_with (addFileToZip_named (\<lambda>fileName. fileName)) env z fs w = (None, w')"
    by (simp add: zipFiles_B_def addFileToZip_B_def)
  from zipFiles_with_ok [OF this]
  show "archives w' z = Some (map (\<lambda>f. (f, the (files w f))) fs)"
    and "\<forall>f \<in> set fs. files w f \<noteq> None"
    by simp_all
next
  assume a: "\<not> displayEmojis env \<and> startup env ws = (Inr lines, w0)
       \<and> scan_lines collect lines None [] = Inr (cur, rs1 @ r # rs2)
       \<and> fold (emit env) rs1 ([], w0) = (fz1, w1)
       \<and> emit env r (fz1, w1) = (fz1 @ [p], w2)
       \<and> distinct (fst (manifest_and_icon generateInfoPlist (filepath_Join ''build'' ''info.plist'')
                         ''../icon.png'' env (fold (emit env) rs2 (fz1 @ [p], w2))))
       \<and> build_archive env (fold (emit env) rs2 (fz1 @ [p], w2)) = (None, w4)"
  let ?g = "gen_emit env (snippet_path env) (snippet_json env) Description"
  from a have g: "emit env = ?g" by (simp add: emit_gen)
  obtain fz3 w3 where st3: "fold ?g rs2 (fz1 @ [p], w2) = (fz3, w3)"
    by (cases "fold ?g rs2 (fz1 @ [p], w2)")
  obtain fzm wm where m: "manifest_and_icon (\<lambda>env path. os_WriteFile env path plistContent)
      (filepath_Join ''build'' ''info.plist'') ''../icon.png'' env (fz3, w3) = (fzm, wm)"
    by (cases "manifest_and_icon (\<lambda>env path. os_WriteFile env path plistContent)
      (filepath_Join ''build'' ''info.plist'') ''../icon.png'' env (fz3, w3)")
  from a g st3 m have dist: "distinct fzm" by (simp add: generateInfoPlist_eq)
  from a g st3 m
  have z: "zipFiles_with (addFileToZip_named (\<lambda>filename. snd (filepath_Split filename)))
      env (zipFileName env) fzm wm = (None, w4)"
    by (simp add: build_archive_def generateInfoPlist_eq zipFiles_def addFileToZip_def)
  from a g have wr: "?g r (fz1, w1) = (fz1 @ [p], w2)" by simp
  note res = written_file_archived [OF wr st3 m dist z]
  from a have "fold (emit env) (rs1 @ r # rs2) ([], w0) = fold (emit env) rs2 (fz1 @ [p], w2)"
    by simp
  with a have mn: "main env ws =
      Inr (os_RemoveAll ''build''
             (Print (''alfredmoji.alfredsnippets file created successfully.'' @ newline) w4))"
    by (simp add: main_loop [of env ws lines w0] package_def)
  from res mn
  show "p = snippet_path env (uuids_drawn w1) r"
    and "files w2 p = Some (snippet_json env (uuids_drawn w1) r)"
    and "(snd (filepath_Split p), snippet_json env (uuids_drawn w1) r)
             \<in> set (the (archives w4 (zipFileName env)))"
    and "main env ws =
             Inr (os_RemoveAll ''build''
                    (Print (''alfredmoji.alfredsnippets file created successfully.'' @ newline) w4))"
    by blast+
next
  assume a: "\<not> displayEmojis env \<and> fetchEmojiData_B env = Inr lines
       \<and> records_B lines = rb1 @ rb # rb2
       \<and> fold (emit_B env) rb1 ([], startup_B ws) = (fz1, w1)
       \<and> emit_B env rb (fz1, w1) = (fz1 @ [p], w2)
       \<and> distinct (fst (manifest_and_icon generateInfoPlist_B (filepath_Join [] ''info.plist'')
                         ''icon.png'' env (fold (emit_B env) rb2 (fz1 @ [p], w2))))
       \<and> build_archive_B env (fold (emit_B env) rb2 (fz1 @ [p], w2)) = (None, w4)"
  let ?g = "gen_emit env (snippet_path_B env) (snippet_json_B env) Description_B"
  from a have g: "emit_B env = ?g" by (simp add: emit_B_gen)
  obtain fz3 w3 where st3: "fold ?g rb2 (fz1 @ [p], w2) = (fz3, w3)"
    by (cases "fold ?g rb2 (fz1 @ [p], w2)")
  obtain fzm wm where m: "manifest_and_icon (\<lambda>env path. os_WriteFile env path plistContent_B)
      (filepath_Join [] ''info.plist'') ''icon.png'' env (fz3, w3) = (fzm, wm)"
    by (cases "manifest_and_icon (\<lambda>env path. os_WriteFile env path plistContent_B)
      (filepath_Join [] ''info.plist'') ''icon.png'' env (fz3, w3)")
  from a g st3 m have dist: "distinct fzm" by (simp add: generateInfoPlist_eq)
  from a g st3 m
  have z: "zipFiles_with (addFileToZip_named (\<lambda>fileName. fileName))
      env zipFileName_B fzm wm = (None, w4)"
    by (simp add: build_archive_B_def generateInfoPlist_eq zipFiles_B_def addFileToZip_B_def)
  from a g have wr: "?g rb (fz1, w1) = (fz1 @ [p], w2)" by simp
  note res = written_file_archived [OF wr st3 m dist z]
  from a have "fold (emit_B env) (records_B lines) ([], startup_B ws) =
      fold (emit_B env) rb2 (fz1 @ [p], w2)"
    by simp
  with a have mn: "main_B env ws =
      os_Remove ''*.json''
        (Print (''EmojiPack.alfredsnippets file created successfully.'' @ newline) w4)"
    by (simp add: main_B_loop [of env lines] package_B_def)
  from res mn
  show "p = snippet_path_B env (uuids_drawn w1) rb"
    and "files w2 p = Some (snippet_json_B env (uuids_drawn w1) rb)"
    and "(p, snippet_json_B env (uuids_drawn w1) rb) \<in> set (the (archives w4 zipFileName_B))"
    and "main_B env ws =
             os_Remove ''*.json''
               (Print (''EmojiPack.alfredsnippets file created successfully.'' @ newline) w4)"
    by blast+
qed

theorem C8_archive_entries_witness:
  "(''grinning-face [6BA7B810-9DAD-11D1-80B4-00C04FD430C0].json'',
    snippet_json
      (demo_env False [''# subgroup: face-smiling'',
                       ''1F600 ; fully-qualified # X E1.0 grinning face'']) 0
      \<lparr>Emoji = ''X'', Description = ''grinning-face'', Subgroup = ''face-smiling''\<rparr>)
   \<in> set (the (archives
        (snd (build_archive
           (demo_env False [''# subgroup: face-smiling'',
                            ''1F600 ; fully-qualified # X E1.0 grinning face''])
           (emit (demo_env False [''# subgroup: face-smiling'',
                                  ''1F600 ; fully-qualified # X E1.0 grinning face''])
              \<lparr>Emoji = ''X'', Description = ''grinning-face'', Subgroup = ''face-smiling''\<rparr>
              ([], snd (startup
                          (demo_env False [''# subgroup: face-smiling'',
                                           ''1F600 ; fully-qualified # X E1.0 grinning face''])
                          demo_world)))))
        (zipFileName (demo_env False [''# subgroup: face-smiling'',
                                     ''1F600 ; fully-qualified # X E1.0 grinning face'']))))"
proof -
  let ?ls = "[''# subgroup: face-smiling'', ''1F600 ; fully-qualified # X E1.0 grinning face'']"
  let ?env = "demo_env False ?ls"
  let ?r = "\<lparr>Emoji = ''X'', Description = ''grinning-face'', Subgroup = ''face-smiling''\<rparr>"
  let ?p = "''build/grinning-face [6BA7B810-9DAD-11D1-80B4-00C04FD430C0].json''"
  let ?w0 = "snd (startup ?env demo_world)"
  let ?w2 = "snd (emit ?env ?r ([], ?w0))"
  let ?w4 = "snd (build_archive ?env ([?p], ?w2))"
  have h1: "\<not> displayEmojis ?env" by (simp add: demo_env_def)
  have "fst (startup ?env demo_world) = Inr ?ls" by code_simp
  then have h2: "startup ?env demo_world = (Inr ?ls, ?w0)" by (simp add: prod_eq_iff)
  have h3: "scan_lines collect ?ls None [] = Inr (Some ''face-smiling'', [] @ ?r # [])"
    by code_simp
  have h4: "fold (emit ?env) [] ([], ?w0) = ([], ?w0)" by simp
  have "fst (emit ?env ?r ([], ?w0)) = [?p]" by code_simp
  then have h5: "emit ?env ?r ([], ?w0) = ([] @ [?p], ?w2)"
    by (simp add: prod_eq_iff)
  have h6: "distinct (fst (manifest_and_icon generateInfoPlist
      (filepath_Join ''build'' ''info.plist'') ''../icon.png'' ?env
      (fold (emit ?env) [] ([] @ [?p], ?w2))))"
    by code_simp
  have "fst (build_archive ?env ([?p], ?w2)) = None" by code_simp
  then have h7: "build_archive ?env (fold (emit ?env) [] ([] @ [?p], ?w2)) = (None, ?w4)"
    by (simp add: prod_eq_iff)
  have hyp: "\<not> displayEmojis ?env \<and> startup ?env demo_world = (Inr ?ls, ?w0)
       \<and> scan_lines collect ?ls None [] = Inr (Some ''face-smiling'', [] @ ?r # [])
       \<and> fold (emit ?env) [] ([], ?w0) = ([], ?w0)
       \<and> emit ?env ?r ([], ?w0) = ([] @ [?p], ?w2)
       \<and> distinct (fst (manifest_and_icon generateInfoPlist
            (filepath_Join ''build'' ''info.plist'') ''../icon.png'' ?env
            (fold (emit ?env) [] ([] @ [?p], ?w2))))
       \<and> build_archive ?env (fold (emit ?env) [] ([] @ [?p], ?w2)) = (None, ?w4)"
    by (intro conjI h1 h2 h3 h4 h5 h6 h7)
  note c = C8_archive_entries [THEN conjunct2, THEN conjunct2, THEN conjunct1, THEN mp, OF hyp]
  have n: "snd (filepath_Split ?p) = ''grinning-face [6BA7B810-9DAD-11D1-80B4-00C04FD430C0].json''"
    by code_simp
  have u: "uuids_drawn ?w0 = 0" by code_simp
  from c have "(snd (filepath_Split ?p), snippet_json ?env (uuids_drawn ?w0) ?r)
      \<in> set (the (archives ?w4 (zipFileName ?env)))"
    by blast
  then have "(''grinning-face [6BA7B810-9DAD-11D1-80B4-00C04FD430C0].json'',
      snippet_json ?env 0 ?r) \<in> set (the (archives ?w4 (zipFileName ?env)))"
    by (simp only: n u)
  moreover have "build_archive ?env (emit ?env ?r ([], ?w0)) = build_archive ?env ([?p], ?w2)"
    using h5 by simp
  ultimately show ?thesis by simp
qed

text \<open>
  Claim C8 as it is stated fails on \<open>src/main.go\<close>: for the description
  \<open>build/x\<close> the snippet file is written at \<open>build/x [UID].json\<close> (the directory
  \<open>build\<close> is made when the program starts), the archive is built without error, and
  the entry carries the whole path, not the base name \<open>x [UID].json\<close>.
\<close>

theorem C8_counterexample:
  "map fst (the (archives
       (main_B (demo_env False [''1F600 ; Basic_Emoji ; build/x # E1.0'']) demo_world)
       zipFileName_B)) =
     [''build/x [6BA7B810-9DAD-11D1-80B4-00C04FD430C0].json'', ''info.plist'', ''icon.png'']
   \<and> snd (filepath_Split ''build/x [6BA7B810-9DAD-11D1-80B4-00C04FD430C0].json'') =
       ''x [6BA7B810-9DAD-11D1-80B4-00C04FD430C0].json''
   \<and> console (main_B (demo_env False [''1F600 ; Basic_Emoji ; build/x # E1.0'']) demo_world) =
       [''EmojiPack.alfredsnippets file created successfully.'' @ [CHR 0x0A]]"
  by code_simp

end
